theory Spec2Isabelle
  imports Complex_Main "HOL-Library.AList"
begin

section \<open>Carbon credit marketplace: ledger, quorum gate, settlement\<close>

text \<open>
  The backend consists of \<^verbatim>\<open>database.js\<close> (accounts and listings), \<^verbatim>\<open>pbft.js\<close> (the simulated
  agreement vote) and \<^verbatim>\<open>server.js\<close> (the request handlers that tie them to the block store).
  A request field is an \<open>option\<close>: \<open>None\<close> is a field that is missing or \<^verbatim>\<open>null\<close>; the
  numeric fields carry the numbers that the JSON parser produced.
\<close>

subsection \<open>Numbers\<close>

text \<open>
  A JavaScript number is an IEEE 754 double: a finite value, one of the two infinities, or
  NaN. A finite double is given by its value; the negative zero is not told from zero, as
  no operation of the program (truthiness, comparison, JSON output) tells them apart.
\<close>

datatype number = Finite real | Infinity | MinusInfinity | NaN

text \<open>The number of binary digits of a natural number.\<close>

fun bitLength :: "nat \<Rightarrow> nat" where
  "bitLength n = (if n = 0 then 0 else Suc (bitLength (n div 2)))"

declare bitLength.simps [simp del]

definition pow2 :: "int \<Rightarrow> real" where
  "pow2 k = (if 0 \<le> k then 2 ^ nat k else 1 / 2 ^ nat (- k))"

text \<open>The binary exponent of a positive real \<open>a\<close>: the \<open>e\<close> with \<open>2 ^ e \<le> a < 2 ^ (e + 1)\<close>.\<close>

definition exponent :: "real \<Rightarrow> int" where
  "exponent a =
     (if 1 \<le> a then int (bitLength (nat \<lfloor>a\<rfloor>)) - 1
      else (let k = int (bitLength (nat \<lfloor>1 / a\<rfloor>)) - 1
            in if pow2 (- k) \<le> a then - k else - k - 1))"

definition roundHalfEven :: "real \<Rightarrow> int" where
  "roundHalfEven x =
     (let f = \<lfloor>x\<rfloor>; d = x - of_int f
      in if d < 1 / 2 then f else if 1 / 2 < d then f + 1 else if even f then f else f + 1)"

text \<open>
  Rounding to the nearest double, ties to the even significand: 53 significant bits, the
  smallest exponent -1022 (below it the spacing stays \<open>2 ^ -1074\<close>), and an infinity
  when the rounded magnitude reaches \<open>2 ^ 1024\<close>.
\<close>

definition toDouble :: "real \<Rightarrow> number" where
  "toDouble x =
     (if x = 0 then Finite 0
      else
        (let e = max (exponent \<bar>x\<bar>) (- 1022);
             n = roundHalfEven (\<bar>x\<bar> / pow2 (e - 52))
         in if 1023 < e \<or> (e = 1023 \<and> n = 2 ^ 53)
            then (if 0 < x then Infinity else MinusInfinity)
            else Finite ((if 0 < x then 1 else - 1) * of_int n * pow2 (e - 52))))"

text \<open>The operator \<^verbatim>\<open>+\<close> on two numbers, and the unary \<^verbatim>\<open>-\<close>.\<close>

fun jsPlus :: "number \<Rightarrow> number \<Rightarrow> number" where
  "jsPlus NaN y = NaN"
| "jsPlus x NaN = NaN"
| "jsPlus Infinity MinusInfinity = NaN"
| "jsPlus MinusInfinity Infinity = NaN"
| "jsPlus Infinity y = Infinity"
| "jsPlus x Infinity = Infinity"
| "jsPlus MinusInfinity y = MinusInfinity"
| "jsPlus x MinusInfinity = MinusInfinity"
| "jsPlus (Finite a) (Finite b) = toDouble (a + b)"

fun jsNegate :: "number \<Rightarrow> number" where
  "jsNegate (Finite a) = Finite (- a)"
| "jsNegate Infinity = MinusInfinity"
| "jsNegate MinusInfinity = Infinity"
| "jsNegate NaN = NaN"

text \<open>The comparison \<^verbatim>\<open>x >= 0\<close>.\<close>

fun nonNegative :: "number \<Rightarrow> bool" where
  "nonNegative (Finite a) = (0 \<le> a)"
| "nonNegative Infinity = True"
| "nonNegative MinusInfinity = False"
| "nonNegative NaN = False"

subsection \<open>Ledger\<close>

record 'p block =
  timestamp :: string
  payload :: 'p
  previousHash :: string
  hash :: string
  nonce :: nat

text \<open>
  Modelled from the spec: the module \<^verbatim>\<open>blockchain.js\<close> that \<^verbatim>\<open>server.js\<close> requires
  (class \<^verbatim>\<open>Blockchain\<close> with \<^verbatim>\<open>addBlock\<close> and \<^verbatim>\<open>getChain\<close>) is not among the sources. The
  digest function, the difficulty predicate and the contents of the genesis block are the
  ledger's configuration.
\<close>

record 'p ledger_config =
  digest :: "string \<Rightarrow> string \<Rightarrow> 'p \<Rightarrow> nat \<Rightarrow> string"
  difficulty :: "string \<Rightarrow> bool"
  genesisTimestamp :: string
  genesisPayload :: 'p

text \<open>
  Modelled from the spec: \<^verbatim>\<open>blockchain.js\<close> is missing; "block[0] is a fixed genesis block
  with a defined constant previousHash".
\<close>

definition genesisPreviousHash :: string where
  "genesisPreviousHash = ''0''"

text \<open>
  Modelled from the spec: \<^verbatim>\<open>blockchain.js\<close> is missing;
  "hash = digest(previousHash, timestamp, payload, nonce)".
\<close>

definition calculateHash :: "'p ledger_config \<Rightarrow> 'p block \<Rightarrow> string" where
  "calculateHash cfg b = digest cfg (previousHash b) (timestamp b) (payload b) (nonce b)"

definition genesisBlock :: "'p ledger_config \<Rightarrow> 'p block" where
  "genesisBlock cfg =
     \<lparr> timestamp = genesisTimestamp cfg, payload = genesisPayload cfg,
       previousHash = genesisPreviousHash,
       hash = digest cfg genesisPreviousHash (genesisTimestamp cfg) (genesisPayload cfg) 0,
       nonce = 0 \<rparr>"

text \<open>
  Modelled from the spec: \<^verbatim>\<open>blockchain.js\<close> is missing; "getChain() \<rightarrow> ordered sequence of
  Block, oldest first". The ledger state is the list of blocks appended after the genesis
  block, which the ledger owns from its construction.
\<close>

definition getChain :: "'p ledger_config \<Rightarrow> 'p block list \<Rightarrow> 'p block list" where
  "getChain cfg bs = genesisBlock cfg # bs"

text \<open>
  Modelled from the spec: \<^verbatim>\<open>blockchain.js\<close> is missing; append "searches increasing nonce
  values until digest(previousHash, timestamp, payload, nonce) satisfies a configured
  difficulty predicate". The search need not end: \<open>None\<close> is the search that never returns.
\<close>

partial_function (option) searchNonce :: "(nat \<Rightarrow> bool) \<Rightarrow> nat \<Rightarrow> nat option" where
  "searchNonce good n = (if good n then Some n else searchNonce good (Suc n))"

definition mineBlock :: "'p ledger_config \<Rightarrow> string \<Rightarrow> string \<Rightarrow> 'p \<Rightarrow> 'p block option" where
  "mineBlock cfg prev ts p =
     (case searchNonce (\<lambda>n. difficulty cfg (digest cfg prev ts p n)) 0 of
        None \<Rightarrow> None
      | Some n \<Rightarrow>
          Some \<lparr> timestamp = ts, payload = p, previousHash = prev,
                 hash = digest cfg prev ts p n, nonce = n \<rparr>)"

text \<open>
  Modelled from the spec: \<^verbatim>\<open>blockchain.js\<close> is missing; "append(payload) \<rightarrow> Block: ... appends
  the resulting block; returns it". The block's timestamp is the clock reading taken
  by the ledger.
\<close>

definition addBlock ::
  "'p ledger_config \<Rightarrow> 'p block list \<Rightarrow> string \<Rightarrow> 'p \<Rightarrow> ('p block list \<times> 'p block) option" where
  "addBlock cfg bs ts p =
     (case mineBlock cfg (hash (last (getChain cfg bs))) ts p of
        None \<Rightarrow> None
      | Some b \<Rightarrow> Some (bs @ [b], b))"

text \<open>
  Modelled from the spec: \<^verbatim>\<open>blockchain.js\<close> is missing; verify "recomputes every block's
  hash and previous-link and returns the first index at which integrity breaks, or none".
\<close>

fun verifyFrom :: "'p ledger_config \<Rightarrow> nat \<Rightarrow> string \<Rightarrow> 'p block list \<Rightarrow> nat option" where
  "verifyFrom cfg i prev [] = None"
| "verifyFrom cfg i prev (b # bs) =
     (if previousHash b = prev \<and> hash b = calculateHash cfg b
      then verifyFrom cfg (Suc i) (hash b) bs
      else Some i)"

definition verify :: "'p ledger_config \<Rightarrow> 'p block list \<Rightarrow> nat option" where
  "verify cfg bs = verifyFrom cfg 0 genesisPreviousHash (getChain cfg bs)"

text \<open>
  The difficulty predicate can be met for every block content: some nonce gives a digest
  that satisfies it. Then the nonce search of every append ends.
\<close>

definition attainable :: "'p ledger_config \<Rightarrow> bool" where
  "attainable cfg = (\<forall>prev ts p. \<exists>n. difficulty cfg (digest cfg prev ts p n))"

text \<open>A chain built only through append: the payloads, each with the clock reading of its call.\<close>

fun appendAll ::
  "'p ledger_config \<Rightarrow> 'p block list \<Rightarrow> (string \<times> 'p) list \<Rightarrow> 'p block list option" where
  "appendAll cfg bs [] = Some bs"
| "appendAll cfg bs ((ts, p) # rest) =
     (case addBlock cfg bs ts p of
        None \<Rightarrow> None
      | Some (bs', b) \<Rightarrow> appendAll cfg bs' rest)"

subsection \<open>Quorum gate (\<^verbatim>\<open>pbft.js\<close>)\<close>

text \<open>
  \<^verbatim>\<open>Math.random()\<close> is global state: an oracle \<open>rnd\<close> gives the results of the
  successive calls, and a position counts the calls made so far.
\<close>

type_synonym draws = "nat \<Rightarrow> real"

text \<open>A vote: the node, the transaction and the oracle position give the vote and the new position.\<close>

type_synonym 't vote = "string \<Rightarrow> 't \<Rightarrow> nat \<Rightarrow> bool \<times> nat"

definition nodes :: "string list" where
  "nodes = [''node1'', ''node2'', ''node3'', ''node4'']"

definition simulateNodeVote :: "draws \<Rightarrow> 't vote" where
  "simulateNodeVote rnd node tx pos = (rnd pos > 0.2, Suc pos)"

definition simulateNodeCommit :: "draws \<Rightarrow> 't vote" where
  "simulateNodeCommit rnd node tx pos = (rnd pos > 0.2, Suc pos)"

text \<open>The \<^verbatim>\<open>forEach\<close> loop that counts the YES votes of the nodes.\<close>

fun countVotes :: "'t vote \<Rightarrow> string list \<Rightarrow> 't \<Rightarrow> nat \<Rightarrow> nat \<Rightarrow> nat \<times> nat" where
  "countVotes vote [] tx count pos = (count, pos)"
| "countVotes vote (node # rest) tx count pos =
     (case vote node tx pos of
        (yes, pos') \<Rightarrow> countVotes vote rest tx (if yes then count + 1 else count) pos')"

text \<open>\<^verbatim>\<open>Math.floor((this.nodes.length - 1) / 3) * 2 + 1\<close>, on integers: division rounds down.\<close>

definition required :: "string list \<Rightarrow> int" where
  "required ns = ((int (length ns) - 1) div 3) * 2 + 1"

record phase_result =
  passed :: bool
  voteCount :: nat
  requiredVotes :: int

text \<open>
  The two phases call the methods \<^verbatim>\<open>this.simulateNodeVote\<close> and \<^verbatim>\<open>this.simulateNodeCommit\<close>;
  the method called is an argument here, so that a fixed vote can stand in for the random one.
\<close>

definition collectPrepareMessages :: "'t vote \<Rightarrow> 't \<Rightarrow> nat \<Rightarrow> phase_result \<times> nat" where
  "collectPrepareMessages vote tx pos =
     (case countVotes vote nodes tx 0 pos of
        (prepareCount, pos') \<Rightarrow>
          (\<lparr> passed = (int prepareCount \<ge> required nodes), voteCount = prepareCount,
              requiredVotes = required nodes \<rparr>, pos'))"

definition collectCommitMessages :: "'t vote \<Rightarrow> 't \<Rightarrow> nat \<Rightarrow> phase_result \<times> nat" where
  "collectCommitMessages commit tx pos =
     (case countVotes commit nodes tx 0 pos of
        (commitCount, pos') \<Rightarrow>
          (\<lparr> passed = (int commitCount \<ge> required nodes), voteCount = commitCount,
              requiredVotes = required nodes \<rparr>, pos'))"

datatype 't consensus = Committed 't | Aborted string

text \<open>
  \<^verbatim>\<open>startConsensus\<close> calls its callback synchronously, exactly once; the model returns the
  callback's argument, and the position of the random oracle after the votes.
\<close>

definition startConsensus :: "'t vote \<Rightarrow> 't vote \<Rightarrow> 't \<Rightarrow> nat \<Rightarrow> 't consensus \<times> nat" where
  "startConsensus vote commit tx pos =
     (case collectPrepareMessages vote tx pos of
        (prepareResults, pos1) \<Rightarrow>
          if passed prepareResults then
            (case collectCommitMessages commit tx pos1 of
               (commitResults, pos2) \<Rightarrow>
                 if passed commitResults then (Committed tx, pos2)
                 else (Aborted ''Commit phase failed'', pos2))
          else (Aborted ''Prepare phase failed'', pos1))"

subsection \<open>Accounts and listings (\<^verbatim>\<open>database.js\<close>)\<close>

record user =
  username :: string
  password :: string
  role :: string
  balance :: number

datatype listing_status = Pending | Verified | Failed

record listing =
  listing_id :: string
  seller :: string
  amount :: number
  price :: number
  status :: listing_status
  createdAt :: string

text \<open>
  \<^verbatim>\<open>users\<close> is a Map read and written by key only. \<^verbatim>\<open>listings\<close> is a Map that is also
  enumerated, so it is an association list in insertion order: \<^verbatim>\<open>set\<close> replaces the value of
  a key in place or adds the key at the end, \<^verbatim>\<open>delete\<close> removes the key.
\<close>

record database =
  users :: "string \<rightharpoonup> user"
  listings :: "(string \<times> listing) list"

definition initializeTestData :: database where
  "initializeTestData =
     \<lparr> users = [''seller1'' \<mapsto> \<lparr> username = ''seller1'', password = ''password123'',
                                  role = ''seller'', balance = Finite 0 \<rparr>,
                 ''buyer1'' \<mapsto> \<lparr> username = ''buyer1'', password = ''password123'',
                                 role = ''buyer'', balance = Finite 0 \<rparr>],
       listings = [] \<rparr>"

record result =
  success :: bool
  message :: string

definition registerUser :: "string \<Rightarrow> string \<Rightarrow> string \<Rightarrow> database \<Rightarrow> result \<times> database" where
  "registerUser name pw r d =
     (if users d name \<noteq> None then
        (\<lparr> success = False, message = ''Username already exists'' \<rparr>, d)
      else if r \<notin> set [''buyer'', ''seller''] then
        (\<lparr> success = False, message = ''Invalid role'' \<rparr>, d)
      else
        (\<lparr> success = True, message = ''User registered successfully'' \<rparr>,
         d\<lparr> users := (users d)(name \<mapsto>
               \<lparr> username = name, password = pw, role = r, balance = Finite 0 \<rparr>) \<rparr>))"

definition getUser :: "string \<Rightarrow> database \<Rightarrow> user option" where
  "getUser name d = users d name"

definition updateUserBalance :: "string \<Rightarrow> number \<Rightarrow> database \<Rightarrow> bool \<times> database" where
  "updateUserBalance name amt d =
     (case users d name of
        Some u \<Rightarrow> (True, d\<lparr> users := (users d)(name \<mapsto> u\<lparr> balance := jsPlus (balance u) amt \<rparr>) \<rparr>)
      | None \<Rightarrow> (False, d))"

text \<open>
  \<open>uuid\<close> is the result of \<^verbatim>\<open>uuidv4()\<close>, \<open>now\<close> that of \<^verbatim>\<open>new Date().toISOString()\<close>.
  \<^verbatim>\<open>parseFloat\<close> of a number is that number.
\<close>

definition createListing ::
  "string \<Rightarrow> number \<Rightarrow> number \<Rightarrow> string \<Rightarrow> string \<Rightarrow> database \<Rightarrow> listing \<times> database" where
  "createListing sel amt pr uuid now d =
     (let l = \<lparr> listing_id = uuid, seller = sel, amount = amt, price = pr,
                status = Pending, createdAt = now \<rparr>
      in (l, d\<lparr> listings := AList.update (listing_id l) l (listings d) \<rparr>))"

record market_item =
  item_id :: string
  item_seller :: string
  item_amount :: number
  item_price :: number
  item_createdAt :: string

definition getMarketplace :: "database \<Rightarrow> market_item list" where
  "getMarketplace d =
     map (\<lambda>l. \<lparr> item_id = listing_id l, item_seller = seller l, item_amount = amount l,
                item_price = price l, item_createdAt = createdAt l \<rparr>)
       (filter (\<lambda>l. status l = Verified) (map snd (listings d)))"

datatype purchase_result = Purchased string number number | PurchaseFailed string

definition purchaseCredit :: "string \<Rightarrow> string \<Rightarrow> database \<Rightarrow> purchase_result \<times> database" where
  "purchaseCredit buyer listingId d =
     (case map_of (listings d) listingId of
        None \<Rightarrow> (PurchaseFailed ''Listing not found'', d)
      | Some l \<Rightarrow>
          if status l \<noteq> Verified then
            (PurchaseFailed ''Listing not available for purchase'', d)
          else
            (case users d buyer of
               None \<Rightarrow> (PurchaseFailed ''Buyer not found'', d)
             | Some buyerUser \<Rightarrow>
                 let d1 = snd (updateUserBalance (seller l) (jsNegate (amount l)) d);
                     d2 = snd (updateUserBalance buyer (amount l) d1);
                     d3 = d2\<lparr> listings := AList.delete listingId (listings d2) \<rparr>
                 in (Purchased (seller l) (amount l) (price l), d3)))"

definition verifyListing :: "string \<Rightarrow> database \<Rightarrow> bool \<times> database" where
  "verifyListing listingId d =
     (case map_of (listings d) listingId of
        Some l \<Rightarrow>
          (True, d\<lparr> listings := AList.update listingId (l\<lparr> status := Verified \<rparr>) (listings d) \<rparr>)
      | None \<Rightarrow> (False, d))"

text \<open>The failure branch of the consensus callback writes the status through the Map itself.\<close>

definition markFailed :: "string \<Rightarrow> database \<Rightarrow> database" where
  "markFailed listingId d =
     (case map_of (listings d) listingId of
        Some l \<Rightarrow> d\<lparr> listings := AList.update listingId (l\<lparr> status := Failed \<rparr>) (listings d) \<rparr>
      | None \<Rightarrow> d)"

subsection \<open>Request handlers (\<^verbatim>\<open>server.js\<close>)\<close>

text \<open>
  The handlers are those of \<^verbatim>\<open>src/backend/server.js\<close>. The sources hold a second copy of
  the server, after \<^verbatim>\<open>pbft.js\<close> in the same file, which differs in two places that matter
  here: its list-credit handler asks only that amount and price are not \<^verbatim>\<open>null\<close>, so it
  also accepts zero; and its buy-credit handler reads the balances for the broadcast only
  of accounts that exist. Both copies treat alike every request with a non-zero amount and
  price and every purchase from a seller that is an account.
\<close>

datatype tx_payload =
    carbon_credit_listing string string number number string listing_status
  | carbon_credit_purchase string string string number number string
  | other_payload string

text \<open>
  What the environment gives one request: the identifier drawn by \<^verbatim>\<open>uuidv4()\<close>, the
  results of the successive \<^verbatim>\<open>new Date().toISOString()\<close> calls, and the results of the
  successive \<^verbatim>\<open>Math.random()\<close> calls.
\<close>

record env =
  uuidv4 :: string
  dates :: "nat \<Rightarrow> string"
  mathRandom :: draws

record server =
  db :: database
  blockchain :: "tx_payload block list"

text \<open>A response: the HTTP status, the \<^verbatim>\<open>success\<close> flag, the message, and the listing id if any.\<close>

datatype response = Reply nat bool string "string option"

definition truthy_string :: "string option \<Rightarrow> bool" where
  "truthy_string v = (case v of None \<Rightarrow> False | Some s \<Rightarrow> s \<noteq> [])"

text \<open>A number is falsy when it is zero or NaN.\<close>

definition truthy_number :: "number option \<Rightarrow> bool" where
  "truthy_number v = (case v of None \<Rightarrow> False | Some x \<Rightarrow> x \<noteq> Finite 0 \<and> x \<noteq> NaN)"

definition post_register ::
  "string option \<Rightarrow> string option \<Rightarrow> string option \<Rightarrow> server \<Rightarrow> response \<times> server" where
  "post_register name pw r s =
     (if \<not> truthy_string name \<or> \<not> truthy_string pw \<or> \<not> truthy_string r then
        (Reply 400 False ''All fields are required'' None, s)
      else
        (case registerUser (the name) (the pw) (the r) (db s) of
           (res, d') \<Rightarrow>
             if success res then
               (Reply 200 True ''User registered successfully'' None, s\<lparr> db := d' \<rparr>)
             else (Reply 400 False (message res) None, s\<lparr> db := d' \<rparr>)))"

text \<open>
  \<^verbatim>\<open>POST /api/list-credit\<close>. The clock is read for the listing's \<^verbatim>\<open>createdAt\<close>, then for the
  payload's timestamp, then by the ledger for the block. A ledger append that does not
  return leaves the request without a response: \<open>None\<close>.
\<close>

definition post_list_credit ::
  "tx_payload ledger_config \<Rightarrow> env \<Rightarrow> string option \<Rightarrow> number option \<Rightarrow> number option \<Rightarrow> server
     \<Rightarrow> (response \<times> server) option" where
  "post_list_credit cfg e name amt pr s =
     (if \<not> truthy_string name \<or> \<not> truthy_number amt \<or> \<not> truthy_number pr then
        Some (Reply 400 False ''All fields are required'' None, s)
      else
        (case getUser (the name) (db s) of
           None \<Rightarrow> Some (Reply 400 False ''Invalid user or not a seller'' None, s)
         | Some u \<Rightarrow>
             if role u \<noteq> ''seller'' then
               Some (Reply 400 False ''Invalid user or not a seller'' None, s)
             else
               (case createListing (the name) (the amt) (the pr) (uuidv4 e) (dates e 0) (db s) of
                  (l, d1) \<Rightarrow>
                    (case fst (startConsensus (simulateNodeVote (mathRandom e))
                                 (simulateNodeCommit (mathRandom e)) l 0) of
                       Committed tx \<Rightarrow>
                         (case addBlock cfg (blockchain s) (dates e 2)
                                 (carbon_credit_listing (listing_id l) (the name) (the amt)
                                    (the pr) (dates e 1) Verified) of
                            None \<Rightarrow> None
                          | Some (bc, blk) \<Rightarrow>
                              let d2 = snd (updateUserBalance (the name) (the amt) d1);
                                  d3 = snd (verifyListing (listing_id l) d2)
                              in Some (Reply 200 True
                                         ''Carbon credit listed and undergoing verification''
                                         (Some (listing_id l)),
                                       \<lparr> db = d3, blockchain = bc \<rparr>))
                     | Aborted err \<Rightarrow>
                         Some (Reply 200 True
                                 ''Carbon credit listed and undergoing verification''
                                 (Some (listing_id l)),
                               \<lparr> db = markFailed (listing_id l) d1,
                                 blockchain = blockchain s \<rparr>)))))"

text \<open>
  \<^verbatim>\<open>POST /api/buy-credit\<close>. After the block is appended the handler reads the balance of
  the buyer and of the seller for the broadcast; reading it from a seller that is no account
  throws, and the request ends with status 500 after the state has changed.
\<close>

definition post_buy_credit ::
  "tx_payload ledger_config \<Rightarrow> env \<Rightarrow> string option \<Rightarrow> string option \<Rightarrow> server
     \<Rightarrow> (response \<times> server) option" where
  "post_buy_credit cfg e buyer listingId s =
     (if \<not> truthy_string buyer \<or> \<not> truthy_string listingId then
        Some (Reply 400 False ''Buyer and listing ID are required'' None, s)
      else
        (case purchaseCredit (the buyer) (the listingId) (db s) of
           (PurchaseFailed msg, d') \<Rightarrow> Some (Reply 400 False msg None, s\<lparr> db := d' \<rparr>)
         | (Purchased sel amt pr, d') \<Rightarrow>
             (case addBlock cfg (blockchain s) (dates e 1)
                     (carbon_credit_purchase (the listingId) (the buyer) sel amt pr (dates e 0)) of
                None \<Rightarrow> None
              | Some (bc, blk) \<Rightarrow>
                  if getUser sel d' = None then
                    Some (Reply 500 False ''Internal Server Error'' None,
                          \<lparr> db = d', blockchain = bc \<rparr>)
                  else
                    Some (Reply 200 True ''Purchase successful'' None,
                          \<lparr> db = d', blockchain = bc \<rparr>))))"

text \<open>
  The listings Map has one entry per key, and every listing is stored under its own
  identifier (\<^verbatim>\<open>this.listings.set(listing.id, listing)\<close> is the only write of a new key).
\<close>

definition keyed :: "(string \<times> listing) list \<Rightarrow> bool" where
  "keyed ls = (distinct (map fst ls) \<and> (\<forall>(k, l) \<in> set ls. listing_id l = k))"

text \<open>The listing that a request to list credits creates.\<close>

abbreviation pendingListing :: "env \<Rightarrow> string \<Rightarrow> number \<Rightarrow> number \<Rightarrow> listing" where
  "pendingListing e name amt pr \<equiv>
     \<lparr> listing_id = uuidv4 e, seller = name, amount = amt, price = pr,
       status = Pending, createdAt = dates e 0 \<rparr>"

subsection \<open>Runs of the server\<close>

datatype request =
    Register "string option" "string option" "string option"
  | ListCredit env "string option" "number option" "number option"
  | BuyCredit env "string option" "string option"

fun handle :: "tx_payload ledger_config \<Rightarrow> request \<Rightarrow> server \<Rightarrow> (response \<times> server) option" where
  "handle cfg (Register name pw r) s = Some (post_register name pw r s)"
| "handle cfg (ListCredit e name amt pr) s = post_list_credit cfg e name amt pr s"
| "handle cfg (BuyCredit e buyer listingId) s = post_buy_credit cfg e buyer listingId s"

fun run :: "tx_payload ledger_config \<Rightarrow> request list \<Rightarrow> server \<Rightarrow> server option" where
  "run cfg [] s = Some s"
| "run cfg (r # rs) s =
     (case handle cfg r s of None \<Rightarrow> None | Some (resp, s') \<Rightarrow> run cfg rs s')"

definition initial :: server where
  "initial = \<lparr> db = initializeTestData, blockchain = [] \<rparr>"

definition balanceOf :: "server \<Rightarrow> string \<Rightarrow> number option" where
  "balanceOf s name = map_option balance (users (db s) name)"

subsection \<open>A concrete ledger configuration\<close>

text \<open>
  A small configuration on which the definitions can be run: the digest puts one zero per
  nonce step in front of the timestamp, and the difficulty asks for two leading zeros, so
  that the nonce search takes three steps.
\<close>

definition testConfig :: "tx_payload ledger_config" where
  "testConfig =
     \<lparr> digest = (\<lambda>prev ts p n. replicate n (CHR ''0'') @ ''1'' @ ts),
       difficulty = (\<lambda>h. take 2 h = ''00''),
       genesisTimestamp = ''2024-01-01T00:00:00.000Z'',
       genesisPayload = other_payload ''Genesis Block'' \<rparr>"

text \<open>
  Two environments: in \<open>yesEnv\<close> every random draw is 0.9, so every validator votes YES; in
  \<open>noEnv\<close> every draw is 0.1, so every validator votes NO.
\<close>

definition yesEnv :: env where
  "yesEnv = \<lparr> uuidv4 = ''listing-1'',
              dates = (\<lambda>n. if n = 0 then ''T0'' else if n = 1 then ''T1'' else ''T2''),
              mathRandom = (\<lambda>n. 0.9) \<rparr>"

definition noEnv :: env where
  "noEnv = \<lparr> uuidv4 = ''listing-2'',
             dates = (\<lambda>n. if n = 0 then ''T3'' else if n = 1 then ''T4'' else ''T5''),
             mathRandom = (\<lambda>n. 0.1) \<rparr>"

text \<open>The state after \<^verbatim>\<open>seller1\<close> has listed 10 credits at 2.5 in \<open>yesEnv\<close>.\<close>

definition listedState :: server where
  "listedState =
     \<lparr> db = \<lparr> users = [''seller1'' \<mapsto> \<lparr> username = ''seller1'', password = ''password123'',
                                          role = ''seller'', balance = Finite 10 \<rparr>,
                         ''buyer1'' \<mapsto> \<lparr> username = ''buyer1'', password = ''password123'',
                                         role = ''buyer'', balance = Finite 0 \<rparr>],
               listings = [(''listing-1'',
                            \<lparr> listing_id = ''listing-1'', seller = ''seller1'', amount = Finite 10,
                              price = Finite 2.5, status = Verified, createdAt = ''T0'' \<rparr>)] \<rparr>,
       blockchain = [\<lparr> timestamp = ''T2'',
                        payload = carbon_credit_listing ''listing-1'' ''seller1'' (Finite 10) (Finite 2.5) ''T1'' Verified,
                        previousHash = ''12024-01-01T00:00:00.000Z'',
                        hash = ''001T2'', nonce = 2 \<rparr>] \<rparr>"

text \<open>The state after the same request in \<open>noEnv\<close>.\<close>

definition failedState :: server where
  "failedState =
     \<lparr> db = \<lparr> users = users initializeTestData,
               listings = [(''listing-2'',
                            \<lparr> listing_id = ''listing-2'', seller = ''seller1'', amount = Finite 10,
                              price = Finite 2.5, status = Failed, createdAt = ''T3'' \<rparr>)] \<rparr>,
       blockchain = [] \<rparr>"

text \<open>The state after \<^verbatim>\<open>buyer1\<close> has bought that listing.\<close>

definition soldState :: server where
  "soldState =
     \<lparr> db = \<lparr> users = [''seller1'' \<mapsto> \<lparr> username = ''seller1'', password = ''password123'',
                                          role = ''seller'', balance = Finite 0 \<rparr>,
                         ''buyer1'' \<mapsto> \<lparr> username = ''buyer1'', password = ''password123'',
                                         role = ''buyer'', balance = Finite 10 \<rparr>],
               listings = [] \<rparr>,
       blockchain = [\<lparr> timestamp = ''T2'',
                        payload = carbon_credit_listing ''listing-1'' ''seller1'' (Finite 10) (Finite 2.5) ''T1'' Verified,
                        previousHash = ''12024-01-01T00:00:00.000Z'',
                        hash = ''001T2'', nonce = 2 \<rparr>,
                     \<lparr> timestamp = ''T1'',
                        payload = carbon_credit_purchase ''listing-1'' ''buyer1'' ''seller1'' (Finite 10) (Finite 2.5) ''T0'',
                        previousHash = ''001T2'',
                        hash = ''001T1'', nonce = 2 \<rparr>] \<rparr>"

text \<open>The state after \<^verbatim>\<open>seller1\<close> has listed -5 credits at price 1 in \<open>yesEnv\<close>.\<close>

definition overdrawnState :: server where
  "overdrawnState =
     \<lparr> db = \<lparr> users = [''seller1'' \<mapsto> \<lparr> username = ''seller1'', password = ''password123'',
                                          role = ''seller'', balance = Finite (- 5) \<rparr>,
                         ''buyer1'' \<mapsto> \<lparr> username = ''buyer1'', password = ''password123'',
                                         role = ''buyer'', balance = Finite 0 \<rparr>],
               listings = [(''listing-1'',
                            \<lparr> listing_id = ''listing-1'', seller = ''seller1'', amount = Finite (- 5),
                              price = Finite 1, status = Verified, createdAt = ''T0'' \<rparr>)] \<rparr>,
       blockchain = [\<lparr> timestamp = ''T2'',
                        payload = carbon_credit_listing ''listing-1'' ''seller1'' (Finite (- 5)) (Finite 1) ''T1'' Verified,
                        previousHash = ''12024-01-01T00:00:00.000Z'',
                        hash = ''001T2'', nonce = 2 \<rparr>] \<rparr>"

text \<open>
  A third environment, where every validator votes YES again, and the states of a run in
  which \<^verbatim>\<open>seller1\<close> lists 9007199254740994 credits (\<open>2 ^ 53 + 2\<close>) in \<open>yesEnv\<close>, then lists
  1 credit in \<open>yesEnv2\<close>, and \<^verbatim>\<open>buyer1\<close> buys that second listing.
\<close>

definition yesEnv2 :: env where
  "yesEnv2 = \<lparr> uuidv4 = ''listing-3'',
               dates = (\<lambda>n. if n = 0 then ''T6'' else if n = 1 then ''T7'' else ''T8''),
               mathRandom = (\<lambda>n. 0.9) \<rparr>"

definition bigState :: server where
  "bigState =
     \<lparr> db = \<lparr> users = [''seller1'' \<mapsto> \<lparr> username = ''seller1'', password = ''password123'',
                                          role = ''seller'', balance = Finite 9007199254740994 \<rparr>,
                         ''buyer1'' \<mapsto> \<lparr> username = ''buyer1'', password = ''password123'',
                                         role = ''buyer'', balance = Finite 0 \<rparr>],
               listings = [(''listing-1'',
                            \<lparr> listing_id = ''listing-1'', seller = ''seller1'',
                              amount = Finite 9007199254740994, price = Finite 1,
                              status = Verified, createdAt = ''T0'' \<rparr>)] \<rparr>,
       blockchain = [\<lparr> timestamp = ''T2'',
                        payload = carbon_credit_listing ''listing-1'' ''seller1''
                                    (Finite 9007199254740994) (Finite 1) ''T1'' Verified,
                        previousHash = ''12024-01-01T00:00:00.000Z'',
                        hash = ''001T2'', nonce = 2 \<rparr>] \<rparr>"

definition bigState2 :: server where
  "bigState2 =
     \<lparr> db = \<lparr> users = [''seller1'' \<mapsto> \<lparr> username = ''seller1'', password = ''password123'',
                                          role = ''seller'', balance = Finite 9007199254740996 \<rparr>,
                         ''buyer1'' \<mapsto> \<lparr> username = ''buyer1'', password = ''password123'',
                                         role = ''buyer'', balance = Finite 0 \<rparr>],
               listings = [(''listing-1'',
                            \<lparr> listing_id = ''listing-1'', seller = ''seller1'',
                              amount = Finite 9007199254740994, price = Finite 1,
                              status = Verified, createdAt = ''T0'' \<rparr>),
                           (''listing-3'',
                            \<lparr> listing_id = ''listing-3'', seller = ''seller1'',
                              amount = Finite 1, price = Finite 1,
                              status = Verified, createdAt = ''T6'' \<rparr>)] \<rparr>,
       blockchain = [\<lparr> timestamp = ''T2'',
                        payload = carbon_credit_listing ''listing-1'' ''seller1''
                                    (Finite 9007199254740994) (Finite 1) ''T1'' Verified,
                        previousHash = ''12024-01-01T00:00:00.000Z'',
                        hash = ''001T2'', nonce = 2 \<rparr>,
                     \<lparr> timestamp = ''T8'',
                        payload = carbon_credit_listing ''listing-3'' ''seller1''
                                    (Finite 1) (Finite 1) ''T7'' Verified,
                        previousHash = ''001T2'',
                        hash = ''001T8'', nonce = 2 \<rparr>] \<rparr>"

definition bigState3 :: server where
  "bigState3 =
     \<lparr> db = \<lparr> users = [''seller1'' \<mapsto> \<lparr> username = ''seller1'', password = ''password123'',
                                          role = ''seller'', balance = Finite 9007199254740996 \<rparr>,
                         ''buyer1'' \<mapsto> \<lparr> username = ''buyer1'', password = ''password123'',
                                         role = ''buyer'', balance = Finite 1 \<rparr>],
               listings = [(''listing-1'',
                            \<lparr> listing_id = ''listing-1'', seller = ''seller1'',
                              amount = Finite 9007199254740994, price = Finite 1,
                              status = Verified, createdAt = ''T0'' \<rparr>)] \<rparr>,
       blockchain = [\<lparr> timestamp = ''T2'',
                        payload = carbon_credit_listing ''listing-1'' ''seller1''
                                    (Finite 9007199254740994) (Finite 1) ''T1'' Verified,
                        previousHash = ''12024-01-01T00:00:00.000Z'',
                        hash = ''001T2'', nonce = 2 \<rparr>,
                     \<lparr> timestamp = ''T8'',
                        payload = carbon_credit_listing ''listing-3'' ''seller1''
                                    (Finite 1) (Finite 1) ''T7'' Verified,
                        previousHash = ''001T2'',
                        hash = ''001T8'', nonce = 2 \<rparr>,
                     \<lparr> timestamp = ''T7'',
                        payload = carbon_credit_purchase ''listing-3'' ''buyer1'' ''seller1''
                                    (Finite 1) (Finite 1) ''T6'',
                        previousHash = ''001T8'',
                        hash = ''001T7'', nonce = 2 \<rparr>] \<rparr>"

section \<open>Properties\<close>

subsection \<open>Ledger\<close>

lemma searchNonce_sound:
  assumes "searchNonce good n = Some m"
  shows "good m \<and> n \<le> m"
  using assms
proof (induction rule: searchNonce.raw_induct[rotated 1, consumes 1])
  case (1 f good n m)
  then show ?case
    by (auto split: if_splits dest: Suc_leD)
qed

lemma searchNonce_returns:
  "good m \<Longrightarrow> n \<le> m \<Longrightarrow> \<exists>k. searchNonce good n = Some k"
proof (induction "m - n" arbitrary: n)
  case 0
  then show ?case by (simp add: searchNonce.simps)
next
  case (Suc d)
  show ?case
  proof (cases "good n")
    case True
    then show ?thesis by (simp add: searchNonce.simps)
  next
    case False
    have "\<exists>k. searchNonce good (Suc n) = Some k"
      using Suc False by (intro Suc.hyps(1)) (auto simp: le_less Suc_le_eq)
    then show ?thesis using False by (subst searchNonce.simps) simp
  qed
qed

lemma mineBlock_sound:
  "mineBlock cfg prev ts p = Some b \<Longrightarrow>
     timestamp b = ts \<and> payload b = p \<and> previousHash b = prev
     \<and> hash b = calculateHash cfg b \<and> difficulty cfg (hash b)"
  by (auto simp: mineBlock_def calculateHash_def split: option.splits dest: searchNonce_sound)

lemma mineBlock_returns:
  "attainable cfg \<Longrightarrow> \<exists>b. mineBlock cfg prev ts p = Some b"
proof -
  assume "attainable cfg"
  then obtain n where "difficulty cfg (digest cfg prev ts p n)"
    unfolding attainable_def by blast
  then have "\<exists>k. searchNonce (\<lambda>n. difficulty cfg (digest cfg prev ts p n)) 0 = Some k"
    by (intro searchNonce_returns[where m = n]) simp_all
  then show ?thesis by (auto simp: mineBlock_def)
qed

lemma addBlock_sound:
  "addBlock cfg bs ts p = Some (bs', b) \<Longrightarrow>
     bs' = bs @ [b] \<and> timestamp b = ts \<and> payload b = p
     \<and> previousHash b = hash (last (getChain cfg bs))
     \<and> hash b = calculateHash cfg b \<and> difficulty cfg (hash b)"
  by (auto simp: addBlock_def split: option.splits dest: mineBlock_sound)

lemma addBlock_returns:
  "attainable cfg \<Longrightarrow> \<exists>b. addBlock cfg bs ts p = Some (bs @ [b], b) \<and> payload b = p"
  using mineBlock_returns[of cfg "hash (last (getChain cfg bs))" ts p]
  by (auto simp: addBlock_def dest: mineBlock_sound)

lemma verifyFrom_snoc:
  "verifyFrom cfg i prev (ch @ [b]) = None \<longleftrightarrow>
     verifyFrom cfg i prev ch = None
     \<and> previousHash b = (if ch = [] then prev else hash (last ch))
     \<and> hash b = calculateHash cfg b"
  by (induction ch arbitrary: i prev) auto

lemma verifyFrom_links:
  "verifyFrom cfg i prev ch = None \<Longrightarrow> 0 < j \<Longrightarrow> j < length ch \<Longrightarrow>
     previousHash (ch ! j) = hash (ch ! (j - 1))
     \<and> hash (ch ! (j - 1)) = calculateHash cfg (ch ! (j - 1))"
proof (induction ch arbitrary: i prev j)
  case Nil
  then show ?case by simp
next
  case (Cons b ch)
  then have ok: "previousHash b = prev" "hash b = calculateHash cfg b"
    and rest: "verifyFrom cfg (Suc i) (hash b) ch = None"
    by (auto split: if_splits)
  show ?case
  proof (cases j)
    case 0
    with Cons.prems show ?thesis by simp
  next
    case (Suc k)
    show ?thesis
    proof (cases k)
      case 0
      with Suc Cons.prems rest ok show ?thesis
        by (cases ch) (auto split: if_splits)
    next
      case (Suc k')
      with \<open>j = Suc k\<close> Cons.prems Cons.IH[OF rest, of k] show ?thesis by simp
    qed
  qed
qed

lemma verify_genesis: "verify cfg [] = None"
  by (simp add: verify_def getChain_def genesisBlock_def calculateHash_def)

lemma verify_addBlock:
  assumes "verify cfg bs = None" "addBlock cfg bs ts p = Some (bs', b)"
  shows "verify cfg bs' = None"
proof -
  from addBlock_sound[OF assms(2)]
  have b: "bs' = bs @ [b]" "previousHash b = hash (last (getChain cfg bs))"
    "hash b = calculateHash cfg b" by simp_all
  have "verifyFrom cfg 0 genesisPreviousHash (getChain cfg bs @ [b]) = None"
    using assms(1) b by (subst verifyFrom_snoc) (simp add: verify_def getChain_def)
  then show ?thesis by (simp add: verify_def getChain_def b(1))
qed

lemma appendAll_verify:
  "appendAll cfg bs ins = Some bs' \<Longrightarrow> verify cfg bs = None \<Longrightarrow> verify cfg bs' = None"
proof (induction cfg bs ins rule: appendAll.induct)
  case (1 cfg bs)
  then show ?case by simp
next
  case (2 cfg bs ts p rest)
  then show ?case
    by (auto split: option.splits dest: verify_addBlock)
qed

lemma appendAll_payloads:
  "appendAll cfg bs ins = Some bs' \<Longrightarrow>
     map payload bs' = map payload bs @ map snd ins
     \<and> map timestamp bs' = map timestamp bs @ map fst ins"
proof (induction cfg bs ins rule: appendAll.induct)
  case (1 cfg bs)
  then show ?case by simp
next
  case (2 cfg bs ts p rest)
  then show ?case
    by (auto split: option.splits dest!: addBlock_sound)
qed

lemma appendAll_returns:
  "attainable cfg \<Longrightarrow> \<exists>bs'. appendAll cfg bs ins = Some bs'"
proof (induction cfg bs ins rule: appendAll.induct)
  case (1 cfg bs)
  then show ?case by simp
next
  case (2 cfg bs ts p rest)
  from addBlock_returns[OF 2(2), of bs ts p]
  obtain b where b: "addBlock cfg bs ts p = Some (bs @ [b], b)" by blast
  with 2 show ?case by auto
qed

text \<open>
  Claim C9. In every chain built only through append, each block after the first carries
  as \<open>previousHash\<close> the stored hash of its predecessor, which is also the recomputed
  digest of the predecessor; block 0 is the fixed genesis block, whose \<open>previousHash\<close> is
  the constant; the chain holds the appended payloads in order; and \<open>verify\<close> reports no
  break.
\<close>

theorem ledger_chain_integrity:
  assumes "appendAll cfg [] ins = Some bs"
  shows "(\<forall>i. 0 < i \<and> i < length (getChain cfg bs) \<longrightarrow>
            previousHash (getChain cfg bs ! i) = hash (getChain cfg bs ! (i - 1))
            \<and> previousHash (getChain cfg bs ! i) = calculateHash cfg (getChain cfg bs ! (i - 1)))
         \<and> getChain cfg bs ! 0 = genesisBlock cfg
         \<and> previousHash (getChain cfg bs ! 0) = genesisPreviousHash
         \<and> map payload (getChain cfg bs) = genesisPayload cfg # map snd ins
         \<and> verify cfg bs = None"
proof -
  have v: "verify cfg bs = None"
    using appendAll_verify[OF assms verify_genesis] .
  then have "verifyFrom cfg 0 genesisPreviousHash (getChain cfg bs) = None"
    by (simp add: verify_def)
  from verifyFrom_links[OF this]
  have links: "\<forall>i. 0 < i \<and> i < length (getChain cfg bs) \<longrightarrow>
      previousHash (getChain cfg bs ! i) = hash (getChain cfg bs ! (i - 1))
      \<and> previousHash (getChain cfg bs ! i) = calculateHash cfg (getChain cfg bs ! (i - 1))"
    by simp
  have p: "map payload (getChain cfg bs) = genesisPayload cfg # map snd ins"
    using appendAll_payloads[OF assms] by (simp add: getChain_def genesisBlock_def)
  have g: "getChain cfg bs ! 0 = genesisBlock cfg"
    "previousHash (getChain cfg bs ! 0) = genesisPreviousHash"
    by (simp_all add: getChain_def genesisBlock_def)
  show ?thesis
    using links v p g by blast
qed

lemma attainable_testConfig: "attainable testConfig"
proof -
  have "difficulty testConfig (digest testConfig prev ts p 2)" for prev ts p
    by (simp add: testConfig_def numeral_2_eq_2)
  then show ?thesis unfolding attainable_def by blast
qed

lemma searchNonce_test:
  "searchNonce (\<lambda>n. difficulty testConfig (digest testConfig prev ts p n)) 0 = Some 2"
proof -
  have "searchNonce (\<lambda>n. difficulty testConfig (digest testConfig prev ts p n)) (Suc (Suc 0)) = Some 2"
    by (subst searchNonce.simps) (simp add: testConfig_def)
  then have "searchNonce (\<lambda>n. difficulty testConfig (digest testConfig prev ts p n)) (Suc 0) = Some 2"
    by (subst searchNonce.simps) (simp add: testConfig_def)
  then show ?thesis
    by (subst searchNonce.simps) (simp add: testConfig_def)
qed

lemma addBlock_test:
  "addBlock testConfig bs ts p =
     Some (bs @ [\<lparr> timestamp = ts, payload = p,
                    previousHash = hash (last (getChain testConfig bs)),
                    hash = ''001'' @ ts, nonce = 2 \<rparr>],
           \<lparr> timestamp = ts, payload = p,
                    previousHash = hash (last (getChain testConfig bs)),
                    hash = ''001'' @ ts, nonce = 2 \<rparr>)"
  by (simp add: addBlock_def mineBlock_def searchNonce_test)
     (simp add: testConfig_def numeral_2_eq_2)

theorem ledger_chain_integrity_witness:
  "appendAll testConfig [] [(''t1'', other_payload ''a''), (''t2'', other_payload ''b'')]
     = Some [\<lparr> timestamp = ''t1'', payload = other_payload ''a'', previousHash = ''1'' @ ''2024-01-01T00:00:00.000Z'',
                hash = ''001t1'', nonce = 2 \<rparr>,
             \<lparr> timestamp = ''t2'', payload = other_payload ''b'', previousHash = ''001t1'',
                hash = ''001t2'', nonce = 2 \<rparr>]
   \<and> verify testConfig
        [\<lparr> timestamp = ''t1'', payload = other_payload ''a'', previousHash = ''1'' @ ''2024-01-01T00:00:00.000Z'',
                hash = ''001t1'', nonce = 2 \<rparr>,
             \<lparr> timestamp = ''t2'', payload = other_payload ''b'', previousHash = ''001t1'',
                hash = ''001t2'', nonce = 2 \<rparr>] = None"
proof -
  have a: "appendAll testConfig [] [(''t1'', other_payload ''a''), (''t2'', other_payload ''b'')]
     = Some [\<lparr> timestamp = ''t1'', payload = other_payload ''a'', previousHash = ''1'' @ ''2024-01-01T00:00:00.000Z'',
                hash = ''001t1'', nonce = 2 \<rparr>,
             \<lparr> timestamp = ''t2'', payload = other_payload ''b'', previousHash = ''001t1'',
                hash = ''001t2'', nonce = 2 \<rparr>]"
    by (simp add: addBlock_test getChain_def genesisBlock_def) (simp add: testConfig_def)
  show ?thesis
    using a ledger_chain_integrity[OF a] by simp
qed

subsection \<open>Numbers\<close>

text \<open>
  An integer of magnitude at most \<open>2 ^ 53\<close> is a double, so the sum of two integers is exact
  when it stays in that range. Beyond it sums are rounded.
\<close>

lemma bitLength_bounds:
  "0 < n \<Longrightarrow> \<exists>k. bitLength n = Suc k \<and> 2 ^ k \<le> n \<and> n < 2 ^ Suc k"
proof (induction n rule: bitLength.induct)
  case (1 n)
  show ?case
  proof (cases "n div 2 = 0")
    case True
    with 1(2) have "n = 1" by presburger
    then show ?thesis
      by (simp add: bitLength.simps)
  next
    case False
    with 1 obtain k where k: "bitLength (n div 2) = Suc k" "2 ^ k \<le> n div 2" "n div 2 < 2 ^ Suc k"
      by auto
    have "bitLength n = Suc (Suc k)"
      using 1(2) k(1) by (subst bitLength.simps) simp
    moreover have "2 ^ Suc k \<le> n"
      using k(2) by (simp; presburger)
    moreover have "n < 2 ^ Suc (Suc k)"
      using k(3) by (simp; presburger)
    ultimately show ?thesis by blast
  qed
qed

lemma exponent_ge_one:
  assumes "1 \<le> a"
  shows "\<exists>k. exponent a = int k \<and> 2 ^ k \<le> a \<and> a < 2 ^ Suc k"
proof -
  let ?n = "nat \<lfloor>a\<rfloor>"
  have n: "0 < ?n" using assms by simp
  from bitLength_bounds[OF n] obtain k
    where k: "bitLength ?n = Suc k" "2 ^ k \<le> ?n" "?n < 2 ^ Suc k" by blast
  have lo: "real ?n \<le> a" using assms by simp
  have hi: "a < real ?n + 1" using assms by (simp; linarith)
  have "(2::real) ^ k \<le> real ?n"
    using k(2) by (metis of_nat_le_iff of_nat_numeral of_nat_power)
  then have a: "2 ^ k \<le> a" using lo by linarith
  have "real ?n + 1 \<le> 2 ^ Suc k"
  proof -
    have "Suc ?n \<le> 2 ^ Suc k" using k(3) by simp
    then have "real (Suc ?n) \<le> real (2 ^ Suc k)" by (simp only: of_nat_le_iff)
    then show ?thesis by simp
  qed
  then have b: "a < 2 ^ Suc k" using hi by linarith
  show ?thesis
    using k(1) a b by (intro exI[of _ k]) (simp add: exponent_def assms)
qed

lemma roundHalfEven_int: "roundHalfEven (of_int m) = m"
  by (simp add: roundHalfEven_def)

lemma toDouble_nat:
  assumes "0 < N" "N \<le> 2 ^ 53"
  shows "toDouble (real N) = Finite (real N)" "toDouble (- real N) = Finite (- real N)"
proof -
  have a1: "1 \<le> real N" using assms(1) by simp
  from exponent_ge_one[OF a1] obtain k
    where k: "exponent (real N) = int k" "2 ^ k \<le> real N" "real N < 2 ^ Suc k" by blast
  have "(2::real) ^ k \<le> 2 ^ 53"
  proof -
    have "real N \<le> 2 ^ 53"
      using assms(2) by (metis of_nat_le_iff of_nat_numeral of_nat_power)
    with k(2) show ?thesis by linarith
  qed
  then have k53: "k \<le> 53"
    by (rule power_le_imp_le_exp[rotated]) simp
  have e: "max (exponent (real N)) (- 1022) = int k"
    by (simp add: k(1))
  have scaled: "\<exists>M. real N / pow2 (int k - 52) = of_int M
      \<and> of_int M * pow2 (int k - 52) = real N \<and> (k = 1023 \<longrightarrow> M \<noteq> 2 ^ 53)"
  proof (cases "k \<le> 52")
    case True
    then have p: "pow2 (int k - 52) = 1 / 2 ^ (52 - k)"
      by (cases "k = 52") (simp_all add: pow2_def nat_diff_distrib')
    have "real N / pow2 (int k - 52) = of_int (int N * 2 ^ (52 - k))"
      by (simp add: p)
    moreover have "of_int (int N * 2 ^ (52 - k)) * pow2 (int k - 52) = real N"
      by (simp add: p)
    ultimately show ?thesis using True by (intro exI[of _ "int N * 2 ^ (52 - k)"]) simp
  next
    case False
    with k53 have k: "k = 53" by simp
    have "real N \<le> 2 ^ 53"
      using assms(2) by (metis of_nat_le_iff of_nat_numeral of_nat_power)
    with \<open>2 ^ k \<le> real N\<close> k have N: "real N = 2 ^ 53" by simp
    show ?thesis
      unfolding k by (intro exI[of _ "2 ^ 52"]) (simp add: pow2_def N)
  qed
  then obtain M where M: "real N / pow2 (int k - 52) = of_int M"
    "of_int M * pow2 (int k - 52) = real N" "k = 1023 \<longrightarrow> M \<noteq> 2 ^ 53" by blast
  have nz: "real N \<noteq> 0" "- real N \<noteq> 0" "0 < real N" "\<not> 0 < - real N"
    using assms(1) by simp_all
  have ab: "\<bar>real N\<bar> = real N" "\<bar>- real N\<bar> = real N"
    by simp_all
  have ok: "\<not> (1023 < int k \<or> int k = 1023 \<and> M = 2 ^ 53)"
    using k53 by simp
  show "toDouble (real N) = Finite (real N)"
    unfolding toDouble_def Let_def ab e M(1) roundHalfEven_int
    by (simp only: nz ok if_False if_True mult_1 M(2))
  show "toDouble (- real N) = Finite (- real N)"
    unfolding toDouble_def Let_def ab e M(1) roundHalfEven_int
    by (simp only: nz ok if_False if_True M(2) mult_minus1 mult_minus_left mult.assoc mult_1)
qed

lemma toDouble_int:
  assumes "\<bar>m\<bar> \<le> 2 ^ 53"
  shows "toDouble (of_int m) = Finite (of_int m)"
proof (cases "m = 0")
  case True
  then show ?thesis by (simp add: toDouble_def)
next
  case False
  let ?N = "nat \<bar>m\<bar>"
  have N: "0 < ?N" "?N \<le> 2 ^ 53"
    using False assms by (simp_all add: nat_le_iff)
  show ?thesis
  proof (cases "0 < m")
    case True
    then have eq: "real_of_int m = real ?N" by simp
    show ?thesis
      unfolding eq by (rule toDouble_nat(1)[OF N])
  next
    case False
    with \<open>m \<noteq> 0\<close> have eq: "real_of_int m = - real ?N" by simp
    show ?thesis
      unfolding eq by (rule toDouble_nat(2)[OF N])
  qed
qed

lemma jsPlus_int:
  assumes "\<bar>i + j\<bar> \<le> 2 ^ 53"
  shows "jsPlus (Finite (of_int i)) (Finite (of_int j)) = Finite (of_int (i + j))"
proof -
  have "toDouble (of_int i + of_int j) = Finite (of_int (i + j))"
    using toDouble_int[OF assms] by (simp only: of_int_add)
  then show ?thesis
    by (simp only: jsPlus.simps)
qed

lemma toDouble_small:
  "toDouble 0 = Finite 0" "toDouble 1 = Finite 1" "toDouble 10 = Finite 10"
  "toDouble (- 5) = Finite (- 5)" "toDouble 5 = Finite 5"
  using toDouble_int[of 0] toDouble_int[of 1] toDouble_int[of 10] toDouble_int[of "- 5"]
    toDouble_int[of 5]
  by simp_all

lemma exponent_big:
  "exponent 9007199254740994 = 53" "exponent 9007199254740995 = 53"
  by (simp_all add: exponent_def bitLength.simps)

lemma roundHalfEven_big:
  "roundHalfEven 4503599627370497 = 4503599627370497"
  "roundHalfEven (9007199254740995 / 2) = 4503599627370498"
  using roundHalfEven_int[of 4503599627370497]
  by (simp_all add: roundHalfEven_def Let_def)

lemma toDouble_big:
  "toDouble 9007199254740994 = Finite 9007199254740994"
  "toDouble 9007199254740995 = Finite 9007199254740996"
  by (simp_all add: toDouble_def exponent_big pow2_def roundHalfEven_big Let_def)

subsection \<open>Quorum gate\<close>

lemma countVotes_all_yes:
  "(\<And>n t p. fst (vote n t p)) \<Longrightarrow> fst (countVotes vote ns tx c pos) = c + length ns"
  by (induction ns arbitrary: c pos) (auto split: prod.splits, metis fst_conv)

lemma countVotes_all_no:
  "(\<And>n t p. \<not> fst (vote n t p)) \<Longrightarrow> fst (countVotes vote ns tx c pos) = c"
  by (induction ns arbitrary: c pos) (auto split: prod.splits, metis fst_conv)

lemma countVotes_draws:
  fixes rnd :: draws
  assumes v: "\<And>n t p. vote n t p = (0.2 < rnd p, Suc p)"
  shows "countVotes vote ns tx c pos
     = (c + length (filter (\<lambda>i. 0.2 < rnd i) [pos..<pos + length ns]), pos + length ns)"
proof (induction ns arbitrary: c pos)
  case Nil
  then show ?case by simp
next
  case (Cons n ns)
  have u: "[pos..<pos + length (n # ns)] = pos # [Suc pos..<Suc pos + length ns]"
    using upt_conv_Cons[of pos "pos + Suc (length ns)"] by simp
  have step: "countVotes vote (n # ns) tx c pos
      = countVotes vote ns tx (if 0.2 < rnd pos then c + 1 else c) (Suc pos)"
    by (simp only: countVotes.simps v prod.case)
  show ?case
    unfolding step Cons.IH u by simp
qed

lemma countVotes_random:
  "countVotes (simulateNodeVote rnd) ns tx c pos
     = (c + length (filter (\<lambda>i. 0.2 < rnd i) [pos..<pos + length ns]), pos + length ns)"
  "countVotes (simulateNodeCommit rnd) ns tx c pos
     = (c + length (filter (\<lambda>i. 0.2 < rnd i) [pos..<pos + length ns]), pos + length ns)"
  by (rule countVotes_draws, simp add: simulateNodeVote_def simulateNodeCommit_def)+

lemma required_nodes: "required nodes = 3"
  by (simp add: required_def nodes_def)

lemma length_nodes: "length nodes = 4"
  by (simp add: nodes_def)

lemma collectPrepareMessages_count:
  "collectPrepareMessages vote tx pos
     = (\<lparr> passed = (3 \<le> fst (countVotes vote nodes tx 0 pos)),
          voteCount = fst (countVotes vote nodes tx 0 pos), requiredVotes = 3 \<rparr>,
        snd (countVotes vote nodes tx 0 pos))"
  by (simp add: collectPrepareMessages_def required_nodes case_prod_beta)

lemma collectCommitMessages_count:
  "collectCommitMessages commit tx pos
     = (\<lparr> passed = (3 \<le> fst (countVotes commit nodes tx 0 pos)),
          voteCount = fst (countVotes commit nodes tx 0 pos), requiredVotes = 3 \<rparr>,
        snd (countVotes commit nodes tx 0 pos))"
  by (simp add: collectCommitMessages_def required_nodes case_prod_beta)

lemma startConsensus_counts:
  "startConsensus vote commit tx pos =
     (if fst (countVotes vote nodes tx 0 pos) < 3
      then (Aborted ''Prepare phase failed'', snd (countVotes vote nodes tx 0 pos))
      else if fst (countVotes commit nodes tx 0 (snd (countVotes vote nodes tx 0 pos))) < 3
      then (Aborted ''Commit phase failed'',
            snd (countVotes commit nodes tx 0 (snd (countVotes vote nodes tx 0 pos))))
      else (Committed tx,
            snd (countVotes commit nodes tx 0 (snd (countVotes vote nodes tx 0 pos)))))"
  by (simp add: startConsensus_def collectPrepareMessages_count collectCommitMessages_count
        not_less)

text \<open>
  Claim C3. With the four configured validators the threshold is
  \<open>2 * ((4 - 1) div 3) + 1 = 3\<close>, and it is the threshold of both phases: each phase
  reports the number of YES votes of its own vote function over the four validators and
  passes exactly when that number is at least 3. The decision follows from the two counts:
  fewer than 3 prepare votes give Aborted "Prepare phase failed" and the commit phase is
  skipped (the commit vote is not asked: the outcome does not depend on it and the state of
  the random source is the one the prepare votes left); otherwise fewer than 3 commit votes
  give Aborted "Commit phase failed"; otherwise the decision is Committed. So votes that
  are always YES give Committed, prepare votes that are always NO give Aborted, and YES
  prepare votes followed by commit votes that are always NO give Aborted in the commit
  phase. With the random votes of the source, a phase counts the draws above 0.2 among its
  four draws.
\<close>

theorem quorum_gate:
  "required nodes = 3
   \<and> collectPrepareMessages vote tx pos
       = (\<lparr> passed = (3 \<le> fst (countVotes vote nodes tx 0 pos)),
            voteCount = fst (countVotes vote nodes tx 0 pos), requiredVotes = 3 \<rparr>,
          snd (countVotes vote nodes tx 0 pos))
   \<and> collectCommitMessages commit tx pos
       = (\<lparr> passed = (3 \<le> fst (countVotes commit nodes tx 0 pos)),
            voteCount = fst (countVotes commit nodes tx 0 pos), requiredVotes = 3 \<rparr>,
          snd (countVotes commit nodes tx 0 pos))
   \<and> startConsensus vote commit tx pos
       = (if voteCount (fst (collectPrepareMessages vote tx pos)) < 3
          then (Aborted ''Prepare phase failed'', snd (collectPrepareMessages vote tx pos))
          else if voteCount (fst (collectCommitMessages commit tx
                                    (snd (collectPrepareMessages vote tx pos)))) < 3
          then (Aborted ''Commit phase failed'',
                snd (collectCommitMessages commit tx (snd (collectPrepareMessages vote tx pos))))
          else (Committed tx,
                snd (collectCommitMessages commit tx (snd (collectPrepareMessages vote tx pos)))))
   \<and> ((\<forall>n t p. fst (yes n t p)) \<and> (\<forall>n t p. fst (yes' n t p))
        \<longrightarrow> fst (startConsensus yes yes' tx pos) = Committed tx)
   \<and> ((\<forall>n t p. \<not> fst (no n t p))
        \<longrightarrow> fst (startConsensus no commit tx pos) = Aborted ''Prepare phase failed'')
   \<and> ((\<forall>n t p. fst (yes n t p)) \<and> (\<forall>n t p. \<not> fst (no n t p))
        \<longrightarrow> fst (startConsensus yes no tx pos) = Aborted ''Commit phase failed'')
   \<and> (voteCount (fst (collectPrepareMessages few tx pos)) < 3
        \<longrightarrow> startConsensus few commit tx pos
            = (Aborted ''Prepare phase failed'', snd (collectPrepareMessages few tx pos)))
   \<and> countVotes (simulateNodeVote rnd) nodes tx 0 pos
       = (length (filter (\<lambda>i. 0.2 < rnd i) [pos..<pos + 4]), pos + 4)
   \<and> countVotes (simulateNodeCommit rnd) nodes tx 0 pos
       = (length (filter (\<lambda>i. 0.2 < rnd i) [pos..<pos + 4]), pos + 4)"
proof -
  have yes4: "fst (countVotes v nodes tx 0 p) = 4" if "\<forall>n t p. fst (v n t p)" for v :: "'a vote" and p
    using countVotes_all_yes[of v nodes tx 0 p] that by (simp add: length_nodes)
  have no0: "fst (countVotes v nodes tx 0 p) = 0" if "\<forall>n t p. \<not> fst (v n t p)" for v :: "'a vote" and p
    using countVotes_all_no[of v nodes tx 0 p] that by simp
  have c4: "startConsensus vote commit tx pos
       = (if voteCount (fst (collectPrepareMessages vote tx pos)) < 3
          then (Aborted ''Prepare phase failed'', snd (collectPrepareMessages vote tx pos))
          else if voteCount (fst (collectCommitMessages commit tx
                                    (snd (collectPrepareMessages vote tx pos)))) < 3
          then (Aborted ''Commit phase failed'',
                snd (collectCommitMessages commit tx (snd (collectPrepareMessages vote tx pos))))
          else (Committed tx,
                snd (collectCommitMessages commit tx (snd (collectPrepareMessages vote tx pos)))))"
    by (simp add: startConsensus_counts collectPrepareMessages_count collectCommitMessages_count)
  have c5: "fst (startConsensus yes yes' tx pos) = Committed tx"
    if "\<forall>n t p. fst (yes n t p)" "\<forall>n t p. fst (yes' n t p)"
    by (simp add: startConsensus_counts yes4[OF that(1)] yes4[OF that(2)])
  have c6: "fst (startConsensus no commit tx pos) = Aborted ''Prepare phase failed''"
    if "\<forall>n t p. \<not> fst (no n t p)"
    by (simp add: startConsensus_counts no0[OF that])
  have c7: "fst (startConsensus yes no tx pos) = Aborted ''Commit phase failed''"
    if "\<forall>n t p. fst (yes n t p)" "\<forall>n t p. \<not> fst (no n t p)"
    by (simp add: startConsensus_counts yes4[OF that(1)] no0[OF that(2)])
  have c8: "startConsensus few commit tx pos
      = (Aborted ''Prepare phase failed'', snd (collectPrepareMessages few tx pos))"
    if "voteCount (fst (collectPrepareMessages few tx pos)) < 3"
    using that by (simp add: startConsensus_counts collectPrepareMessages_count)
  have c9: "countVotes (simulateNodeVote rnd) nodes tx 0 pos
       = (length (filter (\<lambda>i. 0.2 < rnd i) [pos..<pos + 4]), pos + 4)"
    "countVotes (simulateNodeCommit rnd) nodes tx 0 pos
       = (length (filter (\<lambda>i. 0.2 < rnd i) [pos..<pos + 4]), pos + 4)"
    using countVotes_random[of rnd nodes tx 0 pos] by (simp_all add: length_nodes)
  show ?thesis
    using required_nodes collectPrepareMessages_count[of vote tx pos]
      collectCommitMessages_count[of commit tx pos] c4 c5 c6 c7 c8 c9
    by blast
qed

theorem quorum_gate_witness:
  "fst (startConsensus (\<lambda>n t p. (True, Suc p)) (\<lambda>n t p. (True, Suc p)) ''tx'' 0) = Committed ''tx''
   \<and> fst (startConsensus (\<lambda>n t p. (False, Suc p)) (\<lambda>n t p. (True, Suc p)) ''tx'' 0)
       = Aborted ''Prepare phase failed''
   \<and> fst (startConsensus (\<lambda>n t p. (True, Suc p)) (\<lambda>n t p. (False, Suc p)) ''tx'' 0)
       = Aborted ''Commit phase failed''
   \<and> voteCount (fst (collectPrepareMessages
          (simulateNodeVote (\<lambda>i. if i < 2 then 0.9 else 0.1)) ''tx'' 0)) = 2
   \<and> startConsensus (simulateNodeVote (\<lambda>i. if i < 2 then 0.9 else 0.1))
          (\<lambda>n t p. (True, Suc p)) ''tx'' 0
       = (Aborted ''Prepare phase failed'', 4)
   \<and> startConsensus (simulateNodeVote (\<lambda>i. if i < 6 then 0.9 else 0.1))
          (simulateNodeCommit (\<lambda>i. if i < 6 then 0.9 else 0.1)) ''tx'' 0
       = (Aborted ''Commit phase failed'', 8)"
proof -
  let ?r = "\<lambda>i::nat. if i < 2 then 0.9 else (0.1::real)"
  let ?r6 = "\<lambda>i::nat. if i < 6 then 0.9 else (0.1::real)"
  let ?y = "(\<lambda>n t p. (True, Suc p)) :: string vote"
  let ?n = "(\<lambda>n t p. (False, Suc p)) :: string vote"
  have v: "voteCount (fst (collectPrepareMessages (simulateNodeVote ?r) ''tx'' 0)) = 2"
    by (simp add: collectPrepareMessages_def nodes_def simulateNodeVote_def required_def)
  have p6: "collectPrepareMessages (simulateNodeVote ?r6) ''tx'' 0
      = (\<lparr> passed = True, voteCount = 4, requiredVotes = 3 \<rparr>, 4)"
    by (simp add: collectPrepareMessages_def nodes_def simulateNodeVote_def required_def)
  have c6: "collectCommitMessages (simulateNodeCommit ?r6) ''tx'' 4
      = (\<lparr> passed = False, voteCount = 2, requiredVotes = 3 \<rparr>, 8)"
    by (simp add: collectCommitMessages_def nodes_def simulateNodeCommit_def required_def)
  have a: "fst (startConsensus ?y ?y ''tx'' 0) = Committed ''tx''"
    "fst (startConsensus ?n ?y ''tx'' 0) = Aborted ''Prepare phase failed''"
    "fst (startConsensus ?y ?n ''tx'' 0) = Aborted ''Commit phase failed''"
    using quorum_gate[where yes = ?y and yes' = ?y and no = ?n and tx = "''tx''" and pos = 0
        and commit = ?y and vote = ?y and few = ?n and rnd = ?r]
    by (simp_all add: collectPrepareMessages_def collectCommitMessages_def nodes_def
          required_def)
  have b: "startConsensus (simulateNodeVote ?r) ?y ''tx'' 0 = (Aborted ''Prepare phase failed'', 4)"
    using v quorum_gate[where few = "simulateNodeVote ?r" and tx = "''tx''" and pos = 0
        and commit = ?y and rnd = ?r and vote = ?y and yes = ?y and yes' = ?y and no = ?n]
    by (simp add: collectPrepareMessages_def collectCommitMessages_def nodes_def
          required_def simulateNodeVote_def)
  have c: "startConsensus (simulateNodeVote ?r6) (simulateNodeCommit ?r6) ''tx'' 0
      = (Aborted ''Commit phase failed'', 8)"
    using quorum_gate[where vote = "simulateNodeVote ?r6" and commit = "simulateNodeCommit ?r6"
        and tx = "''tx''" and pos = 0 and few = ?n and rnd = ?r and yes = ?y and yes' = ?y
        and no = ?n]
    by (simp add: p6 c6)
  show ?thesis
    using a b c v by simp
qed

subsection \<open>Accounts, listings and the handlers\<close>

lemma updateUserBalance_known:
  "users d name = Some u \<Longrightarrow>
     updateUserBalance name amt d
       = (True, d\<lparr> users := (users d)(name \<mapsto> u\<lparr> balance := jsPlus (balance u) amt \<rparr>) \<rparr>)"
  by (simp add: updateUserBalance_def)

lemma updateUserBalance_listings:
  "listings (snd (updateUserBalance name amt d)) = listings d"
  by (simp add: updateUserBalance_def split: option.splits)

lemma update_twice: "AList.update k v (AList.update k w ls) = AList.update k v ls"
  by (induction ls) auto

lemma verified_after_delete:
  "\<forall>(k, l) \<in> set ls. listing_id l = k \<Longrightarrow>
     filter (\<lambda>l. status l = Verified) (map snd (AList.delete k ls))
       = filter (\<lambda>l. listing_id l \<noteq> k) (filter (\<lambda>l. status l = Verified) (map snd ls))"
  by (induction ls) (auto simp: AList.delete_eq)

lemma keyed_Cons:
  "keyed ((k, l) # ls) \<longleftrightarrow> k \<notin> fst ` set ls \<and> listing_id l = k \<and> keyed ls"
  unfolding keyed_def by simp blast

lemma keyed_id: "keyed ls \<Longrightarrow> (k, l) \<in> set ls \<Longrightarrow> listing_id l = k"
  unfolding keyed_def by blast

lemma verified_after_update:
  "keyed ls \<Longrightarrow> status v \<noteq> Verified \<Longrightarrow>
     filter (\<lambda>l. status l = Verified) (map snd (AList.update k v ls))
       = filter (\<lambda>l. listing_id l \<noteq> k) (filter (\<lambda>l. status l = Verified) (map snd ls))"
proof (induction ls)
  case Nil
  then show ?case by simp
next
  case (Cons p ls)
  obtain k' l' where p: "p = (k', l')" by (cases p)
  from Cons.prems(1) have kl: "keyed ls" and id: "listing_id l' = k'"
    and fresh: "k' \<notin> fst ` set ls"
    unfolding p keyed_Cons by simp_all
  show ?case
  proof (cases "k' = k")
    case True
    have "listing_id x \<noteq> k" if "x \<in> set (map snd ls)" for x
    proof -
      from that obtain k'' where in_ls: "(k'', x) \<in> set ls" by auto
      then have "listing_id x = k''" using kl keyed_id by blast
      moreover have "k'' \<in> fst ` set ls" using in_ls by force
      ultimately show ?thesis using fresh True by blast
    qed
    then have "filter (\<lambda>l. listing_id l \<noteq> k) (filter (\<lambda>l. status l = Verified) (map snd ls))
        = filter (\<lambda>l. status l = Verified) (map snd ls)"
      by (intro filter_True) simp
    with True id Cons.prems(2) show ?thesis by (simp add: p)
  next
    case False
    with Cons.IH[OF kl Cons.prems(2)] id show ?thesis by (simp add: p)
  qed
qed

lemma getMarketplace_filter:
  "filter (\<lambda>l. status l = Verified) (map snd (listings d'))
     = filter (\<lambda>l. listing_id l \<noteq> k) (filter (\<lambda>l. status l = Verified) (map snd (listings d)))
   \<Longrightarrow> getMarketplace d' = filter (\<lambda>i. item_id i \<noteq> k) (getMarketplace d)"
  by (simp add: getMarketplace_def filter_map comp_def)

lemma gate_yesEnv:
  "startConsensus (simulateNodeVote (mathRandom yesEnv)) (simulateNodeCommit (mathRandom yesEnv)) tx 0
     = (Committed tx, 8)"
  by (simp add: startConsensus_def collectPrepareMessages_def collectCommitMessages_def
        nodes_def required_def simulateNodeVote_def simulateNodeCommit_def yesEnv_def)

lemma gate_noEnv:
  "startConsensus (simulateNodeVote (mathRandom noEnv)) (simulateNodeCommit (mathRandom noEnv)) tx 0
     = (Aborted ''Prepare phase failed'', 4)"
  by (simp add: startConsensus_def collectPrepareMessages_def collectCommitMessages_def
        nodes_def required_def simulateNodeVote_def simulateNodeCommit_def noEnv_def)

lemma users_initial:
  "users (db initial) ''seller1''
     = Some \<lparr> username = ''seller1'', password = ''password123'', role = ''seller'', balance = Finite 0 \<rparr>"
  "users (db initial) ''buyer1''
     = Some \<lparr> username = ''buyer1'', password = ''password123'', role = ''buyer'', balance = Finite 0 \<rparr>"
  "listings (db initial) = []" "blockchain initial = []"
  by (simp_all add: initial_def initializeTestData_def)

lemma list_credit_initial:
  "post_list_credit testConfig yesEnv (Some ''seller1'') (Some (Finite 10)) (Some (Finite 2.5)) initial
     = Some (Reply 200 True ''Carbon credit listed and undergoing verification''
               (Some ''listing-1''), listedState)"
  apply (simp add: post_list_credit_def truthy_string_def truthy_number_def getUser_def
      users_initial createListing_def Let_def gate_yesEnv addBlock_test)
  apply (simp add: yesEnv_def updateUserBalance_def verifyListing_def initial_def
      initializeTestData_def listedState_def getChain_def genesisBlock_def testConfig_def
      toDouble_small)
  apply (rule ext)
  apply simp
  done

lemma list_credit_aborted_initial:
  "post_list_credit testConfig noEnv (Some ''seller1'') (Some (Finite 10)) (Some (Finite 2.5)) initial
     = Some (Reply 200 True ''Carbon credit listed and undergoing verification''
               (Some ''listing-2''), failedState)"
  apply (simp add: post_list_credit_def truthy_string_def truthy_number_def getUser_def
      users_initial createListing_def Let_def gate_noEnv)
  apply (simp add: noEnv_def markFailed_def initial_def initializeTestData_def failedState_def)
  done

lemma keyed_examples: "keyed (listings (db initial))" "keyed (listings (db listedState))"
  by (simp_all add: keyed_def initial_def initializeTestData_def listedState_def)

lemma gate_yesEnv2:
  "startConsensus (simulateNodeVote (mathRandom yesEnv2)) (simulateNodeCommit (mathRandom yesEnv2)) tx 0
     = (Committed tx, 8)"
  by (simp add: startConsensus_def collectPrepareMessages_def collectCommitMessages_def
        nodes_def required_def simulateNodeVote_def simulateNodeCommit_def yesEnv2_def)

lemma list_credit_big:
  "post_list_credit testConfig yesEnv (Some ''seller1'') (Some (Finite 9007199254740994))
       (Some (Finite 1)) initial
     = Some (Reply 200 True ''Carbon credit listed and undergoing verification''
               (Some ''listing-1''), bigState)"
  apply (simp add: post_list_credit_def truthy_string_def truthy_number_def getUser_def
      users_initial createListing_def Let_def gate_yesEnv addBlock_test)
  apply (simp add: yesEnv_def updateUserBalance_def verifyListing_def initial_def
      initializeTestData_def bigState_def getChain_def genesisBlock_def testConfig_def
      toDouble_big)
  apply (rule ext)
  apply simp
  done

lemma list_credit_big2:
  "post_list_credit testConfig yesEnv2 (Some ''seller1'') (Some (Finite 1)) (Some (Finite 1))
       bigState
     = Some (Reply 200 True ''Carbon credit listed and undergoing verification''
               (Some ''listing-3''), bigState2)"
  apply (simp add: post_list_credit_def truthy_string_def truthy_number_def getUser_def
      createListing_def Let_def gate_yesEnv2 addBlock_test bigState_def)
  apply (simp add: yesEnv2_def updateUserBalance_def verifyListing_def
      bigState2_def getChain_def toDouble_big)
  apply (rule ext)
  apply simp
  done

subsection \<open>Registration\<close>

text \<open>
  Claim C8. \<^verbatim>\<open>registerUser\<close> checks the name first and the role second. A name that is
  already an account gives the failure "Username already exists"; a new name with a role
  other than buyer and seller gives the failure "Invalid role"; a failure of either kind
  returns the database as it was, so the password, role and balance of an existing account
  are untouched; otherwise the call succeeds and the new account, with balance 0, is the
  only change. The handler changes nothing else: the ledger is the same after every
  registration request, and the server state is the same after every refused one.
\<close>

theorem registerUser_outcomes:
  "(users d name \<noteq> None \<longrightarrow>
      registerUser name pw r d
        = (\<lparr> success = False, message = ''Username already exists'' \<rparr>, d))
   \<and> (users d name = None \<and> r \<noteq> ''buyer'' \<and> r \<noteq> ''seller'' \<longrightarrow>
      registerUser name pw r d = (\<lparr> success = False, message = ''Invalid role'' \<rparr>, d))
   \<and> (\<not> success (fst (registerUser name pw r d)) \<longrightarrow> snd (registerUser name pw r d) = d)
   \<and> (users d name = None \<and> (r = ''buyer'' \<or> r = ''seller'') \<longrightarrow>
      registerUser name pw r d
        = (\<lparr> success = True, message = ''User registered successfully'' \<rparr>,
           d\<lparr> users := (users d)(name \<mapsto>
                \<lparr> username = name, password = pw, role = r, balance = Finite 0 \<rparr>) \<rparr>))
   \<and> blockchain (snd (post_register fname fpw frole s)) = blockchain s
   \<and> listings (db (snd (post_register fname fpw frole s))) = listings (db s)
   \<and> (\<forall>c m i. fst (post_register fname fpw frole s) = Reply c False m i \<longrightarrow>
         snd (post_register fname fpw frole s) = s)"
proof -
  have db: "registerUser name pw r d = (res, d') \<Longrightarrow> \<not> success res \<Longrightarrow> d' = d"
    for name pw r d res d'
    by (auto simp: registerUser_def split: if_splits)
  have ls: "listings (snd (registerUser name pw r d)) = listings d" for name pw r d
    by (simp add: registerUser_def)
  have h1: "blockchain (snd (post_register fname fpw frole s)) = blockchain s"
    by (simp add: post_register_def split: prod.splits)
  have h2: "listings (db (snd (post_register fname fpw frole s))) = listings (db s)"
    using ls[of "the fname" "the fpw" "the frole" "db s"]
    by (auto simp: post_register_def split: prod.splits)
  have h3: "\<forall>c m i. fst (post_register fname fpw frole s) = Reply c False m i \<longrightarrow>
         snd (post_register fname fpw frole s) = s"
    by (auto simp: post_register_def split: prod.splits if_splits dest: db)
  show ?thesis
    using h1 h2 h3 by (auto simp: registerUser_def)
qed

theorem registerUser_outcomes_witness:
  "registerUser ''seller1'' ''x'' ''buyer'' initializeTestData
     = (\<lparr> success = False, message = ''Username already exists'' \<rparr>, initializeTestData)
   \<and> registerUser ''carol'' ''x'' ''admin'' initializeTestData
     = (\<lparr> success = False, message = ''Invalid role'' \<rparr>, initializeTestData)
   \<and> users (snd (registerUser ''carol'' ''x'' ''buyer'' initializeTestData)) ''carol''
     = Some \<lparr> username = ''carol'', password = ''x'', role = ''buyer'', balance = Finite 0 \<rparr>
   \<and> post_register (Some ''seller1'') (Some ''x'') (Some ''buyer'') initial
     = (Reply 400 False ''Username already exists'' None, initial)"
proof -
  have a: "users initializeTestData ''seller1'' \<noteq> None"
    and b: "users initializeTestData ''carol'' = None"
    by (simp_all add: initializeTestData_def)
  have c: "fst (post_register (Some ''seller1'') (Some ''x'') (Some ''buyer'') initial)
      = Reply 400 False ''Username already exists'' None"
    by (simp add: post_register_def truthy_string_def registerUser_def users_initial)
  have "snd (post_register (Some ''seller1'') (Some ''x'') (Some ''buyer'') initial) = initial"
    using c registerUser_outcomes[of d name pw r "Some ''seller1''" "Some ''x''" "Some ''buyer''"
        initial]
    by simp
  with c have e: "post_register (Some ''seller1'') (Some ''x'') (Some ''buyer'') initial
     = (Reply 400 False ''Username already exists'' None, initial)"
    by (simp add: prod_eq_iff)
  show ?thesis
    using a b e
      registerUser_outcomes[of initializeTestData "''seller1''" "''x''" "''buyer''"]
      registerUser_outcomes[of initializeTestData "''carol''" "''x''" "''admin''"]
      registerUser_outcomes[of initializeTestData "''carol''" "''x''" "''buyer''"]
    by simp
qed

subsection \<open>Issuance\<close>

text \<open>
  Claim C1, as amended. A request to list \<open>amt\<close> credits at price \<open>pr\<close> (name, amount and
  price present and truthy, as the handler asks), from an account whose role is seller,
  creates the listing \<open>l\<close>. When the quorum gate commits it, and the ledger's difficulty is
  attainable, the request is answered and in the new state: the seller's balance is the
  result of one JavaScript addition of \<open>amt\<close> to the old balance, which is the exact sum
  when balance and amount are integers and the sum is at most \<open>2 ^ 53\<close> in magnitude, and
  no other account has changed; the listing is stored as verified and no other listing has
  changed; the chain has exactly one more block, whose payload is the issuance record with
  the listing id, the seller, the amount, the price and the status verified.
\<close>

theorem issuance_committed:
  fixes e :: env and name :: string and amt pr :: number
  defines "l \<equiv> \<lparr> listing_id = uuidv4 e, seller = name, amount = amt, price = pr,
                   status = Pending, createdAt = dates e 0 \<rparr>"
  assumes req: "name \<noteq> []" "truthy_number (Some amt)" "truthy_number (Some pr)"
    and acct: "users (db s) name = Some u" "role u = ''seller''"
    and gate: "fst (startConsensus (simulateNodeVote (mathRandom e))
                 (simulateNodeCommit (mathRandom e)) l 0) = Committed l"
    and att: "attainable cfg"
  shows "\<exists>b s'. post_list_credit cfg e (Some name) (Some amt) (Some pr) s
             = Some (Reply 200 True ''Carbon credit listed and undergoing verification''
                       (Some (uuidv4 e)), s')
          \<and> users (db s') = (users (db s))(name \<mapsto> u\<lparr> balance := jsPlus (balance u) amt \<rparr>)
          \<and> (\<forall>i j. balance u = Finite (of_int i) \<and> amt = Finite (of_int j)
                  \<and> \<bar>i + j\<bar> \<le> 2 ^ 53
                \<longrightarrow> balanceOf s' name = Some (Finite (of_int (i + j))))
          \<and> map_of (listings (db s')) (uuidv4 e) = Some (l\<lparr> status := Verified \<rparr>)
          \<and> (\<forall>k. k \<noteq> uuidv4 e \<longrightarrow> map_of (listings (db s')) k = map_of (listings (db s)) k)
          \<and> blockchain s' = blockchain s @ [b]
          \<and> payload b = carbon_credit_listing (uuidv4 e) name amt pr (dates e 1) Verified"
proof -
  let ?p = "carbon_credit_listing (uuidv4 e) name amt pr (dates e 1) Verified"
  from addBlock_returns[OF att, of "blockchain s" "dates e 2" ?p]
  obtain b where b: "addBlock cfg (blockchain s) (dates e 2) ?p = Some (blockchain s @ [b], b)"
    and pb: "payload b = ?p" by blast
  let ?d1 = "(db s)\<lparr> listings := AList.update (uuidv4 e) l (listings (db s)) \<rparr>"
  have cl: "createListing name amt pr (uuidv4 e) (dates e 0) (db s) = (l, ?d1)"
    by (simp add: createListing_def l_def Let_def)
  have u1: "users ?d1 name = Some u" using acct by simp
  let ?d2 = "?d1\<lparr> users := (users (db s))(name \<mapsto> u\<lparr> balance := jsPlus (balance u) amt \<rparr>) \<rparr>"
  have ub: "snd (updateUserBalance name amt ?d1) = ?d2"
    using updateUserBalance_known[OF u1, of amt] by simp
  let ?d3 = "?d2\<lparr> listings := AList.update (uuidv4 e) (l\<lparr> status := Verified \<rparr>) (listings (db s)) \<rparr>"
  have vl: "snd (verifyListing (uuidv4 e) ?d2) = ?d3"
    by (simp add: verifyListing_def update_conv' update_twice)
  have id: "listing_id l = uuidv4 e" by (simp add: l_def)
  define s' where "s' = \<lparr> db = ?d3, blockchain = blockchain s @ [b] \<rparr>"
  have run: "post_list_credit cfg e (Some name) (Some amt) (Some pr) s
      = Some (Reply 200 True ''Carbon credit listed and undergoing verification''
                (Some (uuidv4 e)), s')"
    using req acct gate b
    by (simp add: post_list_credit_def truthy_string_def getUser_def cl id
          ub vl s'_def del: updateUserBalance_def)
  have us: "users (db s') = (users (db s))(name \<mapsto> u\<lparr> balance := jsPlus (balance u) amt \<rparr>)"
    by (simp add: s'_def)
  have exact: "\<forall>i j. balance u = Finite (of_int i) \<and> amt = Finite (of_int j)
                  \<and> \<bar>i + j\<bar> \<le> 2 ^ 53
                \<longrightarrow> balanceOf s' name = Some (Finite (of_int (i + j)))"
    by (auto simp: balanceOf_def us jsPlus_int simp del: jsPlus.simps of_int_add)
  have ls: "map_of (listings (db s')) (uuidv4 e) = Some (l\<lparr> status := Verified \<rparr>)"
    "\<forall>k. k \<noteq> uuidv4 e \<longrightarrow> map_of (listings (db s')) k = map_of (listings (db s)) k"
    by (simp_all add: s'_def update_conv')
  have ch: "blockchain s' = blockchain s @ [b]"
    by (simp add: s'_def)
  show ?thesis
    using run us exact ls ch pb by blast
qed

theorem issuance_committed_witness:
  "users (db initial) ''seller1''
     = Some \<lparr> username = ''seller1'', password = ''password123'', role = ''seller'',
              balance = Finite 0 \<rparr>
   \<and> attainable testConfig
   \<and> (\<exists>b s'. post_list_credit testConfig yesEnv (Some ''seller1'') (Some (Finite 10))
               (Some (Finite 2.5)) initial
             = Some (Reply 200 True ''Carbon credit listed and undergoing verification''
                       (Some (uuidv4 yesEnv)), s')
          \<and> balanceOf s' ''seller1'' = Some (Finite 10)
          \<and> balanceOf s' ''buyer1'' = Some (Finite 0)
          \<and> map_option status (map_of (listings (db s')) (uuidv4 yesEnv)) = Some Verified
          \<and> blockchain s' = [b]
          \<and> payload b = carbon_credit_listing (uuidv4 yesEnv) ''seller1'' (Finite 10)
                           (Finite 2.5) (dates yesEnv 1) Verified)"
proof -
  let ?l = "\<lparr> listing_id = uuidv4 yesEnv, seller = ''seller1'', amount = Finite 10,
               price = Finite 2.5, status = Pending, createdAt = dates yesEnv 0 \<rparr>"
  let ?u = "\<lparr> username = ''seller1'', password = ''password123'', role = ''seller'',
               balance = Finite 0 \<rparr>"
  have h1: "''seller1'' \<noteq> []" and h2: "truthy_number (Some (Finite 10))"
    and h3: "truthy_number (Some (Finite 2.5))"
    by (simp_all add: truthy_number_def)
  have h5: "role ?u = ''seller''"
    by simp
  have h6: "fst (startConsensus (simulateNodeVote (mathRandom yesEnv))
                 (simulateNodeCommit (mathRandom yesEnv)) ?l 0) = Committed ?l"
    by (simp add: gate_yesEnv)
  have h7: "balance ?u = Finite (of_int 0) \<and> Finite 10 = Finite (of_int 10)
      \<and> \<bar>0 + 10 :: int\<bar> \<le> 2 ^ 53"
    by simp
  from issuance_committed[OF h1 h2 h3 users_initial(1) h5 h6 attainable_testConfig]
  obtain b s' where r:
    "post_list_credit testConfig yesEnv (Some ''seller1'') (Some (Finite 10))
         (Some (Finite 2.5)) initial
       = Some (Reply 200 True ''Carbon credit listed and undergoing verification''
                 (Some (uuidv4 yesEnv)), s')"
    "users (db s') = (users (db initial))(''seller1'' \<mapsto>
        ?u\<lparr> balance := jsPlus (balance ?u) (Finite 10) \<rparr>)"
    "\<forall>i j. balance ?u = Finite (of_int i) \<and> Finite 10 = Finite (of_int j)
         \<and> \<bar>i + j\<bar> \<le> 2 ^ 53
       \<longrightarrow> balanceOf s' ''seller1'' = Some (Finite (of_int (i + j)))"
    "map_of (listings (db s')) (uuidv4 yesEnv) = Some (?l\<lparr> status := Verified \<rparr>)"
    "blockchain s' = blockchain initial @ [b]"
    "payload b = carbon_credit_listing (uuidv4 yesEnv) ''seller1'' (Finite 10) (Finite 2.5)
                   (dates yesEnv 1) Verified"
    by blast
  from r(3)[rule_format, OF h7] have bal: "balanceOf s' ''seller1'' = Some (Finite 10)"
    by simp
  have "post_list_credit testConfig yesEnv (Some ''seller1'') (Some (Finite 10))
               (Some (Finite 2.5)) initial
             = Some (Reply 200 True ''Carbon credit listed and undergoing verification''
                       (Some (uuidv4 yesEnv)), s')
          \<and> balanceOf s' ''seller1'' = Some (Finite 10)
          \<and> balanceOf s' ''buyer1'' = Some (Finite 0)
          \<and> map_option status (map_of (listings (db s')) (uuidv4 yesEnv)) = Some Verified
          \<and> blockchain s' = [b]
          \<and> payload b = carbon_credit_listing (uuidv4 yesEnv) ''seller1'' (Finite 10)
                           (Finite 2.5) (dates yesEnv 1) Verified"
    using r(1,2,4,5,6) bal by (simp add: balanceOf_def users_initial)
  then show ?thesis
    using users_initial(1) attainable_testConfig by blast
qed

text \<open>
  The counterexample to claim C1 as it is stated: \<^verbatim>\<open>seller1\<close> lists 9007199254740994
  credits and then 1 credit, both committed. The second listing raises the balance by 2,
  not by the listed quantity 1: the exact sum 9007199254740995 is no double, and the
  addition rounds it.
\<close>

theorem issuance_rounds_counterexample:
  "run testConfig [ListCredit yesEnv (Some ''seller1'') (Some (Finite 9007199254740994))
                     (Some (Finite 1))] initial
     = Some bigState
   \<and> post_list_credit testConfig yesEnv2 (Some ''seller1'') (Some (Finite 1)) (Some (Finite 1))
        bigState
     = Some (Reply 200 True ''Carbon credit listed and undergoing verification''
               (Some ''listing-3''), bigState2)
   \<and> balanceOf bigState ''seller1'' = Some (Finite 9007199254740994)
   \<and> balanceOf bigState2 ''seller1'' = Some (Finite 9007199254740996)
   \<and> (9007199254740996 :: real) \<noteq> 9007199254740994 + 1"
  by (simp add: list_credit_big list_credit_big2 balanceOf_def)
    (simp add: bigState_def bigState2_def)

text \<open>
  Claim C4. When the quorum gate aborts the request, the request is still answered and in
  the new state: no account has changed, so the issuer's balance is the old one; the
  listing is stored as failed; the chain is the old chain; and the marketplace view does
  not hold the listing (it is the old view without any entry of that identifier).
\<close>

theorem issuance_aborted:
  fixes e :: env and name :: string and amt pr :: number
  defines "l \<equiv> \<lparr> listing_id = uuidv4 e, seller = name, amount = amt, price = pr,
                   status = Pending, createdAt = dates e 0 \<rparr>"
  assumes req: "name \<noteq> []" "truthy_number (Some amt)" "truthy_number (Some pr)"
    and acct: "users (db s) name = Some u" "role u = ''seller''"
    and gate: "fst (startConsensus (simulateNodeVote (mathRandom e))
                 (simulateNodeCommit (mathRandom e)) l 0) = Aborted err"
    and keys: "keyed (listings (db s))"
  shows "\<exists>s'. post_list_credit cfg e (Some name) (Some amt) (Some pr) s
             = Some (Reply 200 True ''Carbon credit listed and undergoing verification''
                       (Some (uuidv4 e)), s')
          \<and> users (db s') = users (db s)
          \<and> map_of (listings (db s')) (uuidv4 e) = Some (l\<lparr> status := Failed \<rparr>)
          \<and> (\<forall>k. k \<noteq> uuidv4 e \<longrightarrow> map_of (listings (db s')) k = map_of (listings (db s)) k)
          \<and> blockchain s' = blockchain s
          \<and> uuidv4 e \<notin> item_id ` set (getMarketplace (db s'))
          \<and> getMarketplace (db s')
              = filter (\<lambda>i. item_id i \<noteq> uuidv4 e) (getMarketplace (db s))"
proof -
  let ?d1 = "(db s)\<lparr> listings := AList.update (uuidv4 e) l (listings (db s)) \<rparr>"
  have cl: "createListing name amt pr (uuidv4 e) (dates e 0) (db s) = (l, ?d1)"
    by (simp add: createListing_def l_def Let_def)
  let ?d2 = "(db s)\<lparr> listings := AList.update (uuidv4 e) (l\<lparr> status := Failed \<rparr>) (listings (db s)) \<rparr>"
  have mf: "markFailed (uuidv4 e) ?d1 = ?d2"
    by (simp add: markFailed_def update_conv' update_twice)
  have id: "listing_id l = uuidv4 e" by (simp add: l_def)
  have run: "post_list_credit cfg e (Some name) (Some amt) (Some pr) s
      = Some (Reply 200 True ''Carbon credit listed and undergoing verification''
                (Some (uuidv4 e)), \<lparr> db = ?d2, blockchain = blockchain s \<rparr>)"
    using req acct gate
    by (simp add: post_list_credit_def truthy_string_def getUser_def cl id mf)
  have m: "getMarketplace ?d2 = filter (\<lambda>i. item_id i \<noteq> uuidv4 e) (getMarketplace (db s))"
    by (rule getMarketplace_filter) (simp add: verified_after_update[OF keys])
  show ?thesis
    using run m by (intro exI[of _ "\<lparr> db = ?d2, blockchain = blockchain s \<rparr>"])
      (auto simp: update_conv')
qed

theorem issuance_aborted_witness:
  "keyed (listings (db initial))
   \<and> (\<exists>s'. post_list_credit testConfig noEnv (Some ''seller1'') (Some (Finite 10)) (Some (Finite 2.5)) initial
             = Some (Reply 200 True ''Carbon credit listed and undergoing verification''
                       (Some (uuidv4 noEnv)), s')
          \<and> balanceOf s' ''seller1'' = Some (Finite 0)
          \<and> map_option status (map_of (listings (db s')) (uuidv4 noEnv)) = Some Failed
          \<and> blockchain s' = []
          \<and> uuidv4 noEnv \<notin> item_id ` set (getMarketplace (db s')))"
proof -
  let ?l = "\<lparr> listing_id = uuidv4 noEnv, seller = ''seller1'', amount = Finite 10, price = Finite 2.5,
               status = Pending, createdAt = dates noEnv 0 \<rparr>"
  have h1: "''seller1'' \<noteq> []" and h2: "truthy_number (Some (Finite 10))"
    and h3: "truthy_number (Some (Finite 2.5))"
    by (simp_all add: truthy_number_def)
  have h5: "role \<lparr> username = ''seller1'', password = ''password123'', role = ''seller'',
                    balance = Finite 0 \<rparr> = ''seller''"
    by simp
  have h6: "fst (startConsensus (simulateNodeVote (mathRandom noEnv))
                 (simulateNodeCommit (mathRandom noEnv)) ?l 0) = Aborted ''Prepare phase failed''"
    by (simp add: gate_noEnv)
  from issuance_aborted[OF h1 h2 h3 users_initial(1) h5 h6 keyed_examples(1), of testConfig]
  obtain s' where
    "post_list_credit testConfig noEnv (Some ''seller1'') (Some (Finite 10)) (Some (Finite 2.5)) initial
       = Some (Reply 200 True ''Carbon credit listed and undergoing verification''
                 (Some (uuidv4 noEnv)), s')"
    "users (db s') = users (db initial)"
    "map_of (listings (db s')) (uuidv4 noEnv) = Some (?l\<lparr> status := Failed \<rparr>)"
    "blockchain s' = blockchain initial"
    "uuidv4 noEnv \<notin> item_id ` set (getMarketplace (db s'))"
    by auto
  then have "post_list_credit testConfig noEnv (Some ''seller1'') (Some (Finite 10)) (Some (Finite 2.5)) initial
             = Some (Reply 200 True ''Carbon credit listed and undergoing verification''
                       (Some (uuidv4 noEnv)), s')
          \<and> balanceOf s' ''seller1'' = Some (Finite 0)
          \<and> map_option status (map_of (listings (db s')) (uuidv4 noEnv)) = Some Failed
          \<and> blockchain s' = []
          \<and> uuidv4 noEnv \<notin> item_id ` set (getMarketplace (db s'))"
    by (simp add: balanceOf_def users_initial)
  then show ?thesis
    using keyed_examples(1) by blast
qed

subsection \<open>Purchase\<close>

lemma jsPlus_of_int:
  assumes "x = Finite (of_int i)" "y = Finite (of_int j)" "\<bar>i + j\<bar> \<le> 2 ^ 53"
  shows "jsPlus x y = Finite (of_int (i + j))"
  unfolding assms(1,2) by (rule jsPlus_int[OF assms(3)])

lemma jsNegate_of_int: "x = Finite (of_int i) \<Longrightarrow> jsNegate x = Finite (of_int (- i))"
  by simp

text \<open>
  Claim C2, as amended. When the listing is verified and both its seller and the buyer are
  accounts (the request naming a buyer and a listing, the listings keyed by their
  identifiers, the ledger's difficulty attainable), the purchase is answered with success
  and in the new state: for every account, the new balance is the old one, after the
  JavaScript addition of the negated amount if the account is the seller, and then after
  the JavaScript addition of the amount if it is the buyer; when the two balances and the
  amount are integers and neither the debited seller balance nor the credited buyer
  balance exceeds \<open>2 ^ 53\<close> in magnitude, the two additions are exact, the seller has lost
  the amount and the buyer has gained it (both at once when the buyer is the seller), and
  the sum of the two balances is the old sum; the listing is deleted and the marketplace
  view is the old view without it; the chain has exactly one more block, whose payload is
  the transfer record.
\<close>

theorem purchase_transfers:
  assumes req: "buyer \<noteq> []" "listingId \<noteq> []"
    and l: "map_of (listings (db s)) listingId = Some l" "status l = Verified"
    and accts: "users (db s) (seller l) = Some su" "users (db s) buyer = Some bu"
    and keys: "keyed (listings (db s))"
    and att: "attainable cfg"
  shows "\<exists>b s' su' bu'.
          post_buy_credit cfg e (Some buyer) (Some listingId) s
             = Some (Reply 200 True ''Purchase successful'' None, s')
          \<and> (\<forall>name. balanceOf s' name
                = map_option
                    (\<lambda>x. let y = (if name = seller l then jsPlus x (jsNegate (amount l)) else x)
                         in if name = buyer then jsPlus y (amount l) else y)
                    (balanceOf s name))
          \<and> users (db s') (seller l) = Some su' \<and> users (db s') buyer = Some bu'
          \<and> (\<forall>a b q. balance su = Finite (of_int a) \<and> balance bu = Finite (of_int b)
                  \<and> amount l = Finite (of_int q)
                  \<and> \<bar>a - q\<bar> \<le> 2 ^ 53 \<and> \<bar>b + q\<bar> \<le> 2 ^ 53
                \<longrightarrow> (\<exists>a' b'. balance su' = Finite (of_int a') \<and> balance bu' = Finite (of_int b')
                       \<and> a' + b' = a + b
                       \<and> (buyer \<noteq> seller l \<longrightarrow> a' = a - q \<and> b' = b + q)
                       \<and> (buyer = seller l \<longrightarrow> a' = a \<and> b' = b)))
          \<and> map_of (listings (db s')) listingId = None
          \<and> (\<forall>k. k \<noteq> listingId \<longrightarrow> map_of (listings (db s')) k = map_of (listings (db s)) k)
          \<and> listingId \<notin> item_id ` set (getMarketplace (db s'))
          \<and> getMarketplace (db s')
              = filter (\<lambda>i. item_id i \<noteq> listingId) (getMarketplace (db s))
          \<and> blockchain s' = blockchain s @ [b]
          \<and> payload b = carbon_credit_purchase listingId buyer (seller l) (amount l) (price l)
                           (dates e 0)"
proof -
  let ?p = "carbon_credit_purchase listingId buyer (seller l) (amount l) (price l) (dates e 0)"
  from addBlock_returns[OF att, of "blockchain s" "dates e 1" ?p]
  obtain b where b: "addBlock cfg (blockchain s) (dates e 1) ?p = Some (blockchain s @ [b], b)"
    and pb: "payload b = ?p" by blast
  let ?debit = "\<lambda>x. jsPlus x (jsNegate (amount l))"
  let ?credit = "\<lambda>x. jsPlus x (amount l)"
  let ?u1 = "(users (db s))(seller l \<mapsto> su\<lparr> balance := ?debit (balance su) \<rparr>)"
  obtain bu1 where bu1: "?u1 buyer = Some bu1"
    and bu1_bal: "balance bu1 = (if buyer = seller l then ?debit (balance bu) else balance bu)"
    using accts by (cases "buyer = seller l") auto
  let ?u2 = "?u1(buyer \<mapsto> bu1\<lparr> balance := ?credit (balance bu1) \<rparr>)"
  let ?d3 = "(db s)\<lparr> users := ?u2, listings := AList.delete listingId (listings (db s)) \<rparr>"
  have pc: "purchaseCredit buyer listingId (db s)
      = (Purchased (seller l) (amount l) (price l), ?d3)"
    using l accts bu1 by (simp add: purchaseCredit_def updateUserBalance_def)
  have su2: "?u2 (seller l) \<noteq> None" by simp
  have run: "post_buy_credit cfg e (Some buyer) (Some listingId) s
      = Some (Reply 200 True ''Purchase successful'' None,
              \<lparr> db = ?d3, blockchain = blockchain s @ [b] \<rparr>)"
    using req b su2 by (simp add: post_buy_credit_def truthy_string_def pc getUser_def)
  have ids: "\<forall>(k, x) \<in> set (listings (db s)). listing_id x = k"
    using keys by (simp add: keyed_def)
  have m: "getMarketplace ?d3 = filter (\<lambda>i. item_id i \<noteq> listingId) (getMarketplace (db s))"
    by (rule getMarketplace_filter) (simp add: verified_after_delete[OF ids])
  define s' where "s' = \<lparr> db = ?d3, blockchain = blockchain s @ [b] \<rparr>"
  have users': "users (db s') = ?u2" and listings': "listings (db s') = AList.delete listingId (listings (db s))"
    and chain': "blockchain s' = blockchain s @ [b]"
    by (simp_all add: s'_def)
  have bal: "balanceOf s' name
      = map_option
          (\<lambda>x. let y = (if name = seller l then jsPlus x (jsNegate (amount l)) else x)
               in if name = buyer then jsPlus y (amount l) else y)
          (balanceOf s name)" for name
    using accts bu1 bu1_bal
    by (auto simp: balanceOf_def users' option.map_ident Let_def simp del: jsPlus.simps)
  define bu' where "bu' = bu1\<lparr> balance := ?credit (balance bu1) \<rparr>"
  have bu': "users (db s') buyer = Some bu'"
    by (simp add: users' bu'_def)
  have bu'_bal: "balance bu'
      = ?credit (if buyer = seller l then ?debit (balance bu) else balance bu)"
    by (simp add: bu'_def bu1_bal del: jsPlus.simps)
  obtain su' where su': "users (db s') (seller l) = Some su'"
    and su'_bal: "balance su'
      = (if buyer = seller l then ?credit (?debit (balance su)) else ?debit (balance su))"
  proof (cases "buyer = seller l")
    case True
    with bu' bu'_bal accts that[of bu'] show ?thesis by (simp del: jsPlus.simps)
  next
    case False
    then have "users (db s') (seller l) = Some (su\<lparr> balance := ?debit (balance su) \<rparr>)"
      by (simp add: users')
    with False that[of "su\<lparr> balance := ?debit (balance su) \<rparr>"] show ?thesis by simp
  qed
  have exact: "\<exists>a' b'. balance su' = Finite (of_int a') \<and> balance bu' = Finite (of_int b')
        \<and> a' + b' = a + b
        \<and> (buyer \<noteq> seller l \<longrightarrow> a' = a - q \<and> b' = b + q)
        \<and> (buyer = seller l \<longrightarrow> a' = a \<and> b' = b)"
    if A: "balance su = Finite (of_int a)" and B: "balance bu = Finite (of_int b)"
      and Q: "amount l = Finite (of_int q)"
      and r1: "\<bar>a - q\<bar> \<le> 2 ^ 53" and r2: "\<bar>b + q\<bar> \<le> 2 ^ 53" for a b q
  proof -
    have r1': "\<bar>a + - q\<bar> \<le> 2 ^ 53" using r1 by simp
    have deb: "?debit (balance su) = Finite (of_int (a - q))"
      using jsPlus_of_int[OF A jsNegate_of_int[OF Q] r1'] by simp
    show ?thesis
    proof (cases "buyer = seller l")
      case True
      then have same: "su = bu" using accts by simp
      then have ab: "a = b" using A B by simp
      have r3: "\<bar>(a - q) + q\<bar> \<le> 2 ^ 53" using r1 r2 ab by linarith
      have restored: "?credit (?debit (balance su)) = Finite (of_int a)"
        using jsPlus_of_int[OF deb Q r3] by simp
      have "balance su' = Finite (of_int a)" "balance bu' = Finite (of_int b)"
        using True su'_bal bu'_bal restored same ab by (simp_all del: jsPlus.simps)
      then show ?thesis using True ab by blast
    next
      case False
      have cr: "?credit (balance bu) = Finite (of_int (b + q))"
        by (rule jsPlus_of_int[OF B Q r2])
      have "balance su' = Finite (of_int (a - q))" "balance bu' = Finite (of_int (b + q))"
        using False su'_bal bu'_bal deb cr by (simp_all del: jsPlus.simps)
      moreover have "(a - q) + (b + q) = a + b" by simp
      ultimately show ?thesis using False by blast
    qed
  qed
  have gone: "map_of (listings (db s')) listingId = None"
    by (simp add: listings' delete_conv')
  have others: "\<forall>k. k \<noteq> listingId \<longrightarrow> map_of (listings (db s')) k = map_of (listings (db s)) k"
    by (simp add: listings')
  have m': "getMarketplace (db s') = filter (\<lambda>i. item_id i \<noteq> listingId) (getMarketplace (db s))"
    using m by (simp add: s'_def)
  then have absent: "listingId \<notin> item_id ` set (getMarketplace (db s'))"
    by auto
  have run': "post_buy_credit cfg e (Some buyer) (Some listingId) s
      = Some (Reply 200 True ''Purchase successful'' None, s')"
    using run by (simp add: s'_def)
  have ex: "\<forall>a b q. balance su = Finite (of_int a) \<and> balance bu = Finite (of_int b)
                  \<and> amount l = Finite (of_int q)
                  \<and> \<bar>a - q\<bar> \<le> 2 ^ 53 \<and> \<bar>b + q\<bar> \<le> 2 ^ 53
                \<longrightarrow> (\<exists>a' b'. balance su' = Finite (of_int a') \<and> balance bu' = Finite (of_int b')
                       \<and> a' + b' = a + b
                       \<and> (buyer \<noteq> seller l \<longrightarrow> a' = a - q \<and> b' = b + q)
                       \<and> (buyer = seller l \<longrightarrow> a' = a \<and> b' = b))"
    using exact by blast
  have bal': "\<forall>name. balanceOf s' name
      = map_option
          (\<lambda>x. let y = (if name = seller l then jsPlus x (jsNegate (amount l)) else x)
               in if name = buyer then jsPlus y (amount l) else y)
          (balanceOf s name)"
    using bal by blast
  show ?thesis
    apply (rule exI[of _ b])
    apply (rule exI[of _ s'])
    apply (rule exI[of _ su'])
    apply (rule exI[of _ bu'])
    apply (intro conjI)
    apply (rule run')
    apply (rule bal')
    apply (rule su')
    apply (rule bu')
    apply (rule ex)
    apply (rule gone)
    apply (rule others)
    apply (rule absent)
    apply (rule m')
    apply (rule chain')
    apply (rule pb)
    done
qed

theorem purchase_transfers_witness:
  "map_of (listings (db listedState)) ''listing-1''
     = Some \<lparr> listing_id = ''listing-1'', seller = ''seller1'', amount = Finite 10,
              price = Finite 2.5, status = Verified, createdAt = ''T0'' \<rparr>
   \<and> keyed (listings (db listedState)) \<and> attainable testConfig
   \<and> (\<exists>b s' su' bu'.
          post_buy_credit testConfig yesEnv (Some ''buyer1'') (Some ''listing-1'') listedState
             = Some (Reply 200 True ''Purchase successful'' None, s')
          \<and> users (db s') ''seller1'' = Some su' \<and> users (db s') ''buyer1'' = Some bu'
          \<and> balance su' = Finite 0 \<and> balance bu' = Finite 10
          \<and> map_of (listings (db s')) ''listing-1'' = None
          \<and> getMarketplace (db s') = []
          \<and> blockchain s' = blockchain listedState @ [b]
          \<and> payload b = carbon_credit_purchase ''listing-1'' ''buyer1'' ''seller1'' (Finite 10)
                           (Finite 2.5) (dates yesEnv 0))"
proof -
  let ?l = "\<lparr> listing_id = ''listing-1'', seller = ''seller1'', amount = Finite 10,
              price = Finite 2.5, status = Verified, createdAt = ''T0'' \<rparr>"
  let ?su = "\<lparr> username = ''seller1'', password = ''password123'', role = ''seller'',
                balance = Finite 10 \<rparr>"
  let ?bu = "\<lparr> username = ''buyer1'', password = ''password123'', role = ''buyer'',
                balance = Finite 0 \<rparr>"
  have h1: "''buyer1'' \<noteq> []" and h2: "''listing-1'' \<noteq> []"
    by simp_all
  have h3: "map_of (listings (db listedState)) ''listing-1'' = Some ?l"
    by (simp add: listedState_def)
  have h4: "status ?l = Verified"
    by simp
  have h5: "users (db listedState) (seller ?l) = Some ?su"
    and h6: "users (db listedState) ''buyer1'' = Some ?bu"
    by (simp_all add: listedState_def)
  have h7: "balance ?su = Finite (of_int 10) \<and> balance ?bu = Finite (of_int 0)
      \<and> amount ?l = Finite (of_int 10)
      \<and> \<bar>10 - 10 :: int\<bar> \<le> 2 ^ 53 \<and> \<bar>0 + 10 :: int\<bar> \<le> 2 ^ 53"
    by simp
  have mk: "getMarketplace (db listedState)
      = [\<lparr> item_id = ''listing-1'', item_seller = ''seller1'', item_amount = Finite 10,
            item_price = Finite 2.5, item_createdAt = ''T0'' \<rparr>]"
    by (simp add: getMarketplace_def listedState_def)
  from purchase_transfers[OF h1 h2 h3 h4 h5 h6 keyed_examples(2) attainable_testConfig, of yesEnv]
  obtain b s' su' bu' where r:
    "post_buy_credit testConfig yesEnv (Some ''buyer1'') (Some ''listing-1'') listedState
       = Some (Reply 200 True ''Purchase successful'' None, s')"
    "users (db s') (seller ?l) = Some su'" "users (db s') ''buyer1'' = Some bu'"
    "\<forall>a b q. balance ?su = Finite (of_int a) \<and> balance ?bu = Finite (of_int b)
         \<and> amount ?l = Finite (of_int q)
         \<and> \<bar>a - q\<bar> \<le> 2 ^ 53 \<and> \<bar>b + q\<bar> \<le> 2 ^ 53
       \<longrightarrow> (\<exists>a' b'. balance su' = Finite (of_int a') \<and> balance bu' = Finite (of_int b')
              \<and> a' + b' = a + b
              \<and> (''buyer1'' \<noteq> seller ?l \<longrightarrow> a' = a - q \<and> b' = b + q)
              \<and> (''buyer1'' = seller ?l \<longrightarrow> a' = a \<and> b' = b))"
    "map_of (listings (db s')) ''listing-1'' = None"
    "getMarketplace (db s')
       = filter (\<lambda>i. item_id i \<noteq> ''listing-1'') (getMarketplace (db listedState))"
    "blockchain s' = blockchain listedState @ [b]"
    "payload b = carbon_credit_purchase ''listing-1'' ''buyer1'' (seller ?l) (amount ?l)
                   (price ?l) (dates yesEnv 0)"
    by (elim exE conjE) (rule that)
  from r(4)[rule_format, OF h7]
  obtain a' b' where ab: "balance su' = Finite (of_int a')" "balance bu' = Finite (of_int b')"
    "''buyer1'' \<noteq> seller ?l \<longrightarrow> a' = 10 - 10 \<and> b' = 0 + 10"
    by blast
  have "a' = 0" "b' = 10"
    using ab(3) by simp_all
  then have bals: "balance su' = Finite 0" "balance bu' = Finite 10"
    by (simp_all add: ab(1,2))
  have "post_buy_credit testConfig yesEnv (Some ''buyer1'') (Some ''listing-1'') listedState
             = Some (Reply 200 True ''Purchase successful'' None, s')
          \<and> users (db s') ''seller1'' = Some su' \<and> users (db s') ''buyer1'' = Some bu'
          \<and> balance su' = Finite 0 \<and> balance bu' = Finite 10
          \<and> map_of (listings (db s')) ''listing-1'' = None
          \<and> getMarketplace (db s') = []
          \<and> blockchain s' = blockchain listedState @ [b]
          \<and> payload b = carbon_credit_purchase ''listing-1'' ''buyer1'' ''seller1'' (Finite 10)
                           (Finite 2.5) (dates yesEnv 0)"
    using r(1,2,3,5,6,7,8) bals by (simp add: mk)
  then show ?thesis
    using h3 keyed_examples(2) attainable_testConfig by blast
qed

lemma buy_credit_big:
  "post_buy_credit testConfig yesEnv2 (Some ''buyer1'') (Some ''listing-3'') bigState2
     = Some (Reply 200 True ''Purchase successful'' None, bigState3)"
  apply (simp add: post_buy_credit_def truthy_string_def getUser_def addBlock_test)
  apply (simp add: purchaseCredit_def updateUserBalance_def bigState2_def Let_def yesEnv2_def
      bigState3_def getChain_def addBlock_test getUser_def toDouble_big toDouble_small)
  done

text \<open>
  The counterexample to claim C2 as it is stated: \<^verbatim>\<open>seller1\<close> lists 9007199254740994
  credits and then 1 credit, which raises the balance to 9007199254740996, and \<^verbatim>\<open>buyer1\<close>
  buys the listing of 1 credit. The purchase succeeds; the seller's balance is what it
  was, not debited by the amount, while the buyer's balance is credited by 1: the sum of
  the two balances has grown by 1.
\<close>

theorem purchase_rounds_counterexample:
  "run testConfig
      [ListCredit yesEnv (Some ''seller1'') (Some (Finite 9007199254740994)) (Some (Finite 1)),
       ListCredit yesEnv2 (Some ''seller1'') (Some (Finite 1)) (Some (Finite 1))] initial
     = Some bigState2
   \<and> map_of (listings (db bigState2)) ''listing-3''
       = Some \<lparr> listing_id = ''listing-3'', seller = ''seller1'', amount = Finite 1,
                price = Finite 1, status = Verified, createdAt = ''T6'' \<rparr>
   \<and> post_buy_credit testConfig yesEnv2 (Some ''buyer1'') (Some ''listing-3'') bigState2
       = Some (Reply 200 True ''Purchase successful'' None, bigState3)
   \<and> balanceOf bigState2 ''seller1'' = Some (Finite 9007199254740996)
   \<and> balanceOf bigState2 ''buyer1'' = Some (Finite 0)
   \<and> balanceOf bigState3 ''seller1'' = Some (Finite 9007199254740996)
   \<and> balanceOf bigState3 ''buyer1'' = Some (Finite 1)
   \<and> (9007199254740996 :: real) \<noteq> 9007199254740996 - 1
   \<and> (9007199254740996 + 1 :: real) \<noteq> 9007199254740996 + 0"
  by (simp add: list_credit_big list_credit_big2 buy_credit_big balanceOf_def)
    (simp add: bigState2_def bigState3_def)

text \<open>
  Claim C5. A purchase that names a listing id that is absent, a listing whose status is
  not verified, or (for a verified listing) a buyer that is no account, fails in
  \<^verbatim>\<open>purchaseCredit\<close> with the message of that case and returns the database as it was; the
  handler answers 400 with \<open>success = False\<close> and the whole server state, accounts, listings
  and chain, is the state before the request.
\<close>

theorem purchase_failure_changes_nothing:
  "(map_of (listings (db s)) listingId = None \<longrightarrow>
      purchaseCredit buyer listingId (db s) = (PurchaseFailed ''Listing not found'', db s))
   \<and> (map_of (listings (db s)) listingId = Some l \<and> status l \<noteq> Verified \<longrightarrow>
      purchaseCredit buyer listingId (db s)
        = (PurchaseFailed ''Listing not available for purchase'', db s))
   \<and> (map_of (listings (db s)) listingId = Some l \<and> status l = Verified
        \<and> users (db s) buyer = None \<longrightarrow>
      purchaseCredit buyer listingId (db s) = (PurchaseFailed ''Buyer not found'', db s))
   \<and> (map_of (listings (db s)) listingId = None
        \<or> (\<exists>l'. map_of (listings (db s)) listingId = Some l' \<and> status l' \<noteq> Verified)
        \<or> users (db s) buyer = None \<longrightarrow>
      (\<exists>msg. post_buy_credit cfg e (Some buyer) (Some listingId) s
               = Some (Reply 400 False msg None, s)))"
  by (auto simp: purchaseCredit_def post_buy_credit_def truthy_string_def
        split: option.splits)

theorem purchase_failure_changes_nothing_witness:
  "map_of (listings (db listedState)) ''listing-9'' = None
   \<and> purchaseCredit ''buyer1'' ''listing-9'' (db listedState)
       = (PurchaseFailed ''Listing not found'', db listedState)
   \<and> (\<exists>l. map_of (listings (db failedState)) ''listing-2'' = Some l \<and> status l \<noteq> Verified)
   \<and> purchaseCredit ''buyer1'' ''listing-2'' (db failedState)
       = (PurchaseFailed ''Listing not available for purchase'', db failedState)
   \<and> users (db listedState) ''nobody'' = None
   \<and> purchaseCredit ''nobody'' ''listing-1'' (db listedState)
       = (PurchaseFailed ''Buyer not found'', db listedState)
   \<and> (\<exists>msg. post_buy_credit testConfig yesEnv (Some ''buyer1'') (Some ''listing-9'') listedState
               = Some (Reply 400 False msg None, listedState))
   \<and> (\<exists>msg. post_buy_credit testConfig yesEnv (Some ''buyer1'') (Some ''listing-2'') failedState
               = Some (Reply 400 False msg None, failedState))
   \<and> (\<exists>msg. post_buy_credit testConfig yesEnv (Some ''nobody'') (Some ''listing-1'') listedState
               = Some (Reply 400 False msg None, listedState))"
proof -
  let ?f = "\<lparr> listing_id = ''listing-2'', seller = ''seller1'', amount = Finite 10, price = Finite 2.5,
              status = Failed, createdAt = ''T3'' \<rparr>"
  let ?v = "\<lparr> listing_id = ''listing-1'', seller = ''seller1'', amount = Finite 10, price = Finite 2.5,
              status = Verified, createdAt = ''T0'' \<rparr>"
  have a: "map_of (listings (db listedState)) ''listing-9'' = None"
    by (simp add: listedState_def)
  have b: "map_of (listings (db failedState)) ''listing-2'' = Some ?f" "status ?f \<noteq> Verified"
    by (simp_all add: failedState_def)
  have c: "map_of (listings (db listedState)) ''listing-1'' = Some ?v" "status ?v = Verified"
    "users (db listedState) ''nobody'' = None"
    by (simp_all add: listedState_def)
  show ?thesis
    using a b c
      purchase_failure_changes_nothing[of listedState "''listing-9''" "''buyer1''" ?v
        testConfig yesEnv]
      purchase_failure_changes_nothing[of failedState "''listing-2''" "''buyer1''" ?f
        testConfig yesEnv]
      purchase_failure_changes_nothing[of listedState "''listing-1''" "''nobody''" ?v
        testConfig yesEnv]
    by auto
qed

subsection \<open>The handlers in normal form\<close>

lemma post_list_credit_seller:
  assumes "name \<noteq> []" "truthy_number (Some amt)" "truthy_number (Some pr)"
    and "users (db s) name = Some u" "role u = ''seller''"
  shows "post_list_credit cfg e (Some name) (Some amt) (Some pr) s =
    (case fst (startConsensus (simulateNodeVote (mathRandom e))
                 (simulateNodeCommit (mathRandom e)) (pendingListing e name amt pr) 0) of
       Committed tx \<Rightarrow>
         (case addBlock cfg (blockchain s) (dates e 2)
                 (carbon_credit_listing (uuidv4 e) name amt pr (dates e 1) Verified) of
            None \<Rightarrow> None
          | Some (bc, blk) \<Rightarrow>
              Some (Reply 200 True ''Carbon credit listed and undergoing verification''
                      (Some (uuidv4 e)),
                    \<lparr> db = (db s)\<lparr> users := (users (db s))(name \<mapsto> u\<lparr> balance := jsPlus (balance u) amt \<rparr>),
                                  listings := AList.update (uuidv4 e)
                                    ((pendingListing e name amt pr)\<lparr> status := Verified \<rparr>)
                                    (listings (db s)) \<rparr>,
                      blockchain = bc \<rparr>))
     | Aborted err \<Rightarrow>
         Some (Reply 200 True ''Carbon credit listed and undergoing verification''
                 (Some (uuidv4 e)),
               \<lparr> db = (db s)\<lparr> listings := AList.update (uuidv4 e)
                                    ((pendingListing e name amt pr)\<lparr> status := Failed \<rparr>)
                                    (listings (db s)) \<rparr>,
                 blockchain = blockchain s \<rparr>))"
proof -
  let ?l = "pendingListing e name amt pr"
  let ?d1 = "(db s)\<lparr> listings := AList.update (uuidv4 e) ?l (listings (db s)) \<rparr>"
  have cl: "createListing name amt pr (uuidv4 e) (dates e 0) (db s) = (?l, ?d1)"
    by (simp add: createListing_def Let_def)
  have u1: "users ?d1 name = Some u" using assms by simp
  let ?d2 = "?d1\<lparr> users := (users (db s))(name \<mapsto> u\<lparr> balance := jsPlus (balance u) amt \<rparr>) \<rparr>"
  have ub: "snd (updateUserBalance name amt ?d1) = ?d2"
    using updateUserBalance_known[OF u1, of amt] by simp
  have vl: "snd (verifyListing (uuidv4 e) ?d2)
      = ?d2\<lparr> listings := AList.update (uuidv4 e) (?l\<lparr> status := Verified \<rparr>) (listings (db s)) \<rparr>"
    by (simp add: verifyListing_def update_conv' update_twice)
  have mf: "markFailed (uuidv4 e) ?d1
      = (db s)\<lparr> listings := AList.update (uuidv4 e) (?l\<lparr> status := Failed \<rparr>) (listings (db s)) \<rparr>"
    by (simp add: markFailed_def update_conv' update_twice)
  show ?thesis
    using assms
    by (simp add: post_list_credit_def truthy_string_def getUser_def cl
          ub vl mf split: consensus.splits option.splits)
qed

lemma post_list_credit_refused:
  "\<not> truthy_string name \<or> \<not> truthy_number amt \<or> \<not> truthy_number pr
     \<or> (\<forall>u. users (db s) (the name) = Some u \<longrightarrow> role u \<noteq> ''seller'') \<Longrightarrow>
   \<exists>msg. post_list_credit cfg e name amt pr s = Some (Reply 400 False msg None, s)"
  by (auto simp: post_list_credit_def getUser_def split: option.splits)

lemma purchaseCredit_users:
  assumes "map_of (listings d) listingId = Some l" "status l = Verified" "users d buyer = Some bu"
  shows "users (snd (purchaseCredit buyer listingId d)) name
    = map_option
        (\<lambda>u. u\<lparr> balance :=
                 (let y = (if name = seller l then jsPlus (balance u) (jsNegate (amount l))
                           else balance u)
                  in if name = buyer then jsPlus y (amount l) else y) \<rparr>)
        (users d name)"
  using assms
  by (cases "users d (seller l)"; cases "users d name")
    (auto simp: purchaseCredit_def updateUserBalance_def Let_def simp del: jsPlus.simps)

lemma purchaseCredit_verified:
  assumes "map_of (listings d) listingId = Some l" "status l = Verified" "users d buyer = Some bu"
  shows "fst (purchaseCredit buyer listingId d) = Purchased (seller l) (amount l) (price l)"
    and "listings (snd (purchaseCredit buyer listingId d)) = AList.delete listingId (listings d)"
  using assms
  by (auto simp: purchaseCredit_def updateUserBalance_def Let_def split: option.splits)

lemma post_buy_credit_verified:
  assumes "buyer \<noteq> []" "listingId \<noteq> []"
    and "map_of (listings (db s)) listingId = Some l" "status l = Verified"
    and "users (db s) buyer = Some bu"
  shows "post_buy_credit cfg e (Some buyer) (Some listingId) s =
    (case addBlock cfg (blockchain s) (dates e 1)
            (carbon_credit_purchase listingId buyer (seller l) (amount l) (price l) (dates e 0)) of
       None \<Rightarrow> None
     | Some (bc, blk) \<Rightarrow>
         Some (if users (db s) (seller l) = None
               then Reply 500 False ''Internal Server Error'' None
               else Reply 200 True ''Purchase successful'' None,
               \<lparr> db = snd (purchaseCredit buyer listingId (db s)), blockchain = bc \<rparr>))"
proof -
  obtain d' where pc: "purchaseCredit buyer listingId (db s)
      = (Purchased (seller l) (amount l) (price l), d')"
    using purchaseCredit_verified(1)[OF assms(3-5)]
    by (cases "purchaseCredit buyer listingId (db s)") simp
  have "users d' (seller l) = None \<longleftrightarrow> users (db s) (seller l) = None"
    using purchaseCredit_users[OF assms(3-5), of "seller l"] pc by simp
  then show ?thesis
    using assms(1,2) pc
    by (simp add: post_buy_credit_def truthy_string_def getUser_def split: option.splits)
qed

lemma countVotes_ignores_tx:
  "countVotes (simulateNodeVote rnd) ns tx c pos = countVotes (simulateNodeVote rnd) ns tx' c pos"
  "countVotes (simulateNodeCommit rnd) ns tx c pos = countVotes (simulateNodeCommit rnd) ns tx' c pos"
  by (induction ns arbitrary: c pos) (simp_all add: simulateNodeVote_def simulateNodeCommit_def)

lemma startConsensus_ignores_tx:
  "fst (startConsensus (simulateNodeVote rnd) (simulateNodeCommit rnd) tx' pos)
     = map_consensus (\<lambda>t. tx')
         (fst (startConsensus (simulateNodeVote rnd) (simulateNodeCommit rnd) tx pos))"
  using countVotes_ignores_tx[of rnd nodes tx' 0 _ tx]
  by (simp add: startConsensus_def collectPrepareMessages_def collectCommitMessages_def
        case_prod_beta)

lemma buy_credit_listed:
  "post_buy_credit testConfig yesEnv (Some ''buyer1'') (Some ''listing-1'') listedState
     = Some (Reply 200 True ''Purchase successful'' None, soldState)"
  apply (simp add: post_buy_credit_def truthy_string_def getUser_def addBlock_test)
  apply (simp add: purchaseCredit_def updateUserBalance_def listedState_def Let_def yesEnv_def
      soldState_def getChain_def addBlock_test getUser_def toDouble_small)
  done

lemma list_credit_negative:
  "post_list_credit testConfig yesEnv (Some ''seller1'') (Some (Finite (- 5)))
       (Some (Finite 1)) initial
     = Some (Reply 200 True ''Carbon credit listed and undergoing verification''
               (Some ''listing-1''), overdrawnState)"
  apply (simp add: post_list_credit_def truthy_string_def truthy_number_def getUser_def
      users_initial createListing_def Let_def gate_yesEnv addBlock_test)
  apply (simp add: yesEnv_def updateUserBalance_def verifyListing_def initial_def
      initializeTestData_def overdrawnState_def getChain_def genesisBlock_def testConfig_def
      toDouble_small)
  apply (rule ext)
  apply simp
  done

subsection \<open>Price and balances\<close>

text \<open>
  Claim C10. For a verified listing and a buyer that is an account, \<^verbatim>\<open>purchaseCredit\<close>
  succeeds whatever the buyer's balance is (the balance can be set to any \<open>x\<close>), and its
  result carries the listing's price. Every balance after the purchase is the balance
  before, after the JavaScript addition of the negated amount for the seller and then of
  the amount for the buyer: the price does not occur, and a listing with any other price
  leaves the same accounts. The handler records the price in the payload of the transfer
  block. A request to list credits leaves the same accounts whatever (truthy) price it
  names.
\<close>

theorem price_moves_no_balance:
  assumes l: "map_of (listings (db s)) listingId = Some l" "status l = Verified"
    and buyer: "users (db s) buyer = Some bu"
  shows "(\<forall>x. fst (purchaseCredit buyer listingId
                     ((db s)\<lparr> users := (users (db s))(buyer \<mapsto> bu\<lparr> balance := x \<rparr>) \<rparr>))
               = Purchased (seller l) (amount l) (price l))
    \<and> (\<forall>name. map_option balance (users (snd (purchaseCredit buyer listingId (db s))) name)
          = map_option
              (\<lambda>x. let y = (if name = seller l then jsPlus x (jsNegate (amount l)) else x)
                   in if name = buyer then jsPlus y (amount l) else y)
              (map_option balance (users (db s) name)))
    \<and> (\<forall>p. users (snd (purchaseCredit buyer listingId
                 ((db s)\<lparr> listings := AList.update listingId (l\<lparr> price := p \<rparr>)
                                        (listings (db s)) \<rparr>)))
            = users (snd (purchaseCredit buyer listingId (db s))))
    \<and> (buyer \<noteq> [] \<and> listingId \<noteq> [] \<and> attainable cfg \<longrightarrow>
          (\<exists>b resp s'. post_buy_credit cfg e (Some buyer) (Some listingId) s = Some (resp, s')
             \<and> (users (db s) (seller l) \<noteq> None \<longrightarrow>
                   resp = Reply 200 True ''Purchase successful'' None)
             \<and> blockchain s' = blockchain s @ [b]
             \<and> payload b = carbon_credit_purchase listingId buyer (seller l) (amount l)
                              (price l) (dates e 0)))
    \<and> (\<forall>e' name amt p p'. truthy_number (Some p) \<and> truthy_number (Some p')
            \<and> attainable cfg \<longrightarrow>
          map_option (\<lambda>r. users (db (snd r))) (post_list_credit cfg e' name amt (Some p) s)
            = map_option (\<lambda>r. users (db (snd r))) (post_list_credit cfg e' name amt (Some p') s))"
proof -
  have c1: "fst (purchaseCredit buyer listingId
                     ((db s)\<lparr> users := (users (db s))(buyer \<mapsto> bu\<lparr> balance := x \<rparr>) \<rparr>))
               = Purchased (seller l) (amount l) (price l)" for x
    by (rule purchaseCredit_verified(1)[where bu = "bu\<lparr> balance := x \<rparr>"]) (simp_all add: l)
  have c2: "map_option balance (users (snd (purchaseCredit buyer listingId (db s))) name)
          = map_option
              (\<lambda>x. let y = (if name = seller l then jsPlus x (jsNegate (amount l)) else x)
                   in if name = buyer then jsPlus y (amount l) else y)
              (map_option balance (users (db s) name))" for name
    by (simp add: purchaseCredit_users[OF l buyer] option.map_comp comp_def Let_def
          del: jsPlus.simps)
  have c3: "users (snd (purchaseCredit buyer listingId
                 ((db s)\<lparr> listings := AList.update listingId (l\<lparr> price := p \<rparr>)
                                        (listings (db s)) \<rparr>)))
            = users (snd (purchaseCredit buyer listingId (db s)))" for p
  proof (rule ext)
    fix name
    let ?d = "(db s)\<lparr> listings := AList.update listingId (l\<lparr> price := p \<rparr>) (listings (db s)) \<rparr>"
    have a: "map_of (listings ?d) listingId = Some (l\<lparr> price := p \<rparr>)"
      by (simp add: update_conv')
    have b: "status (l\<lparr> price := p \<rparr>) = Verified" using l by simp
    have c: "users ?d buyer = Some bu" using buyer by simp
    show "users (snd (purchaseCredit buyer listingId ?d)) name
        = users (snd (purchaseCredit buyer listingId (db s))) name"
      by (simp add: purchaseCredit_users[OF a b c] purchaseCredit_users[OF l buyer] Let_def
            del: jsPlus.simps cong: if_cong)
  qed
  have c4: "\<exists>b resp s'. post_buy_credit cfg e (Some buyer) (Some listingId) s = Some (resp, s')
             \<and> (users (db s) (seller l) \<noteq> None \<longrightarrow>
                   resp = Reply 200 True ''Purchase successful'' None)
             \<and> blockchain s' = blockchain s @ [b]
             \<and> payload b = carbon_credit_purchase listingId buyer (seller l) (amount l)
                              (price l) (dates e 0)"
    if "buyer \<noteq> []" "listingId \<noteq> []" "attainable cfg"
  proof -
    let ?p = "carbon_credit_purchase listingId buyer (seller l) (amount l) (price l) (dates e 0)"
    from addBlock_returns[OF that(3), of "blockchain s" "dates e 1" ?p]
    obtain b where b: "addBlock cfg (blockchain s) (dates e 1) ?p = Some (blockchain s @ [b], b)"
      and pb: "payload b = ?p" by blast
    show ?thesis
      unfolding post_buy_credit_verified[OF that(1,2) l buyer] b
      using pb by auto
  qed
  have c5: "map_option (\<lambda>r. users (db (snd r))) (post_list_credit cfg e' name amt (Some p) s)
            = map_option (\<lambda>r. users (db (snd r))) (post_list_credit cfg e' name amt (Some p') s)"
    if p0: "truthy_number (Some p)" and p0': "truthy_number (Some p')"
      and att: "attainable cfg" for e' name amt p p'
  proof (cases "truthy_string name \<and> truthy_number amt
      \<and> (\<exists>u. users (db s) (the name) = Some u \<and> role u = ''seller'')")
    case False
    then have r: "\<not> truthy_string name \<or> \<not> truthy_number amt \<or> \<not> truthy_number (Some q)
        \<or> (\<forall>u. users (db s) (the name) = Some u \<longrightarrow> role u \<noteq> ''seller'')" for q
      by blast
    from post_list_credit_refused[OF r[of p], where cfg = cfg and e = e']
      post_list_credit_refused[OF r[of p'], where cfg = cfg and e = e']
    show ?thesis by auto
  next
    case True
    then obtain n a u where n: "name = Some n" "n \<noteq> []"
      and a: "amt = Some a" "truthy_number (Some a)"
      and u: "users (db s) n = Some u" "role u = ''seller''"
      by (cases name; cases amt) (auto simp: truthy_string_def truthy_number_def)
    let ?g = "\<lambda>q. fst (startConsensus (simulateNodeVote (mathRandom e'))
                 (simulateNodeCommit (mathRandom e')) (pendingListing e' n a q) 0)"
    have g: "?g p' = map_consensus (\<lambda>t. pendingListing e' n a p') (?g p)"
      by (rule startConsensus_ignores_tx)
    obtain b where b: "addBlock cfg (blockchain s) (dates e' 2)
        (carbon_credit_listing (uuidv4 e') n a p (dates e' 1) Verified) = Some (blockchain s @ [b], b)"
      using addBlock_returns[OF att] by blast
    obtain b' where b': "addBlock cfg (blockchain s) (dates e' 2)
        (carbon_credit_listing (uuidv4 e') n a p' (dates e' 1) Verified) = Some (blockchain s @ [b'], b')"
      using addBlock_returns[OF att] by blast
    show ?thesis
      unfolding n(1) a(1)
      by (cases "?g p")
        (simp_all add: post_list_credit_seller[OF n(2) a(2) p0 u]
          post_list_credit_seller[OF n(2) a(2) p0' u] g
          b[unfolded One_nat_def] b'[unfolded One_nat_def])
  qed
  show ?thesis
    using c1 c2 c3 c4 c5 by blast
qed

theorem price_moves_no_balance_witness:
  "map_of (listings (db listedState)) ''listing-1''
     = Some \<lparr> listing_id = ''listing-1'', seller = ''seller1'', amount = Finite 10, price = Finite 2.5,
              status = Verified, createdAt = ''T0'' \<rparr>
   \<and> users (db listedState) ''buyer1''
     = Some \<lparr> username = ''buyer1'', password = ''password123'', role = ''buyer'', balance = Finite 0 \<rparr>
   \<and> fst (purchaseCredit ''buyer1'' ''listing-1'' (db listedState)) = Purchased ''seller1'' (Finite 10) (Finite 2.5)
   \<and> map_option balance (users (snd (purchaseCredit ''buyer1'' ''listing-1'' (db listedState)))
        ''buyer1'') = Some (Finite 10)
   \<and> map_option balance (users (snd (purchaseCredit ''buyer1'' ''listing-1'' (db listedState)))
        ''seller1'') = Some (Finite 0)"
proof -
  let ?l = "\<lparr> listing_id = ''listing-1'', seller = ''seller1'', amount = Finite 10, price = Finite 2.5,
              status = Verified, createdAt = ''T0'' \<rparr>"
  let ?bu = "\<lparr> username = ''buyer1'', password = ''password123'', role = ''buyer'',
                balance = Finite 0 \<rparr>"
  have h1: "map_of (listings (db listedState)) ''listing-1'' = Some ?l"
    by (simp add: listedState_def)
  have h2: "status ?l = Verified"
    by simp
  have h3: "users (db listedState) ''buyer1'' = Some ?bu"
    and h4: "users (db listedState) ''seller1''
      = Some \<lparr> username = ''seller1'', password = ''password123'', role = ''seller'', balance = Finite 10 \<rparr>"
    by (simp_all add: listedState_def)
  have same: "(db listedState)\<lparr> users := (users (db listedState))(''buyer1'' \<mapsto> ?bu\<lparr> balance := Finite 0 \<rparr>) \<rparr>
      = db listedState"
    using h3 by (simp add: fun_upd_idem)
  from price_moves_no_balance[OF h1 h2 h3, of testConfig yesEnv]
  have a: "\<forall>x. fst (purchaseCredit ''buyer1'' ''listing-1''
                     ((db listedState)\<lparr> users := (users (db listedState))(''buyer1'' \<mapsto> ?bu\<lparr> balance := x \<rparr>) \<rparr>))
               = Purchased (seller ?l) (amount ?l) (price ?l)"
    and b: "\<forall>name. map_option balance (users (snd (purchaseCredit ''buyer1'' ''listing-1'' (db listedState))) name)
          = map_option
              (\<lambda>x. let y = (if name = seller ?l then jsPlus x (jsNegate (amount ?l)) else x)
                   in if name = ''buyer1'' then jsPlus y (amount ?l) else y)
              (map_option balance (users (db listedState) name))"
    by blast+
  from a[rule_format, of "Finite 0"] have a': "fst (purchaseCredit ''buyer1'' ''listing-1'' (db listedState))
      = Purchased ''seller1'' (Finite 10) (Finite 2.5)"
    unfolding same by simp
  show ?thesis
    using h1 h3 a' b[rule_format, of "''buyer1''"] b[rule_format, of "''seller1''"] h4
    by (simp add: toDouble_small)
qed

subsection \<open>Requests with a negative amount\<close>

text \<open>
  Claim C6. The handler refuses a request whose name, amount or price is missing or is the
  empty string or zero, and a request from a name that is no seller, before anything
  happens (\<open>post_list_credit_refused\<close>). It does not look at the sign of the amount or of the
  price. The request to list -5 credits at price 1 is accepted: the listing is created, the
  validators vote, the block is appended and the seller's balance becomes -5. So is the
  request to list 5 credits at price -1.
\<close>

theorem negative_amount_accepted:
  "post_list_credit testConfig yesEnv (Some ''seller1'') (Some (Finite (- 5)))
       (Some (Finite 1)) initial
     = Some (Reply 200 True ''Carbon credit listed and undergoing verification''
               (Some ''listing-1''), overdrawnState)
   \<and> map_of (listings (db overdrawnState)) ''listing-1''
     = Some \<lparr> listing_id = ''listing-1'', seller = ''seller1'', amount = Finite (- 5), price = Finite 1,
              status = Verified, createdAt = ''T0'' \<rparr>
   \<and> balanceOf overdrawnState ''seller1'' = Some (Finite (- 5))
   \<and> length (blockchain overdrawnState) = length (blockchain initial) + 1
   \<and> map_option fst
        (post_list_credit testConfig yesEnv (Some ''seller1'') (Some (Finite 5))
           (Some (Finite (- 1))) initial)
     = Some (Reply 200 True ''Carbon credit listed and undergoing verification''
               (Some ''listing-1''))"
proof -
  have "map_option fst
        (post_list_credit testConfig yesEnv (Some ''seller1'') (Some (Finite 5))
           (Some (Finite (- 1))) initial)
     = Some (Reply 200 True ''Carbon credit listed and undergoing verification''
               (Some ''listing-1''))"
    by (simp add: post_list_credit_def truthy_string_def truthy_number_def getUser_def
      users_initial createListing_def Let_def gate_yesEnv addBlock_test)
      (simp add: yesEnv_def)
  then show ?thesis
    using list_credit_negative
    by (simp add: overdrawnState_def balanceOf_def users_initial)
qed

theorem negative_amount_accepted_witness:
  "truthy_string (Some ''seller1'') \<and> truthy_number (Some (Finite (- 5)))
   \<and> truthy_number (Some (Finite 1))
   \<and> map_option role (getUser ''seller1'' (db initial)) = Some ''seller''
   \<and> map_option fst
         (post_list_credit testConfig yesEnv (Some ''seller1'') (Some (Finite (- 5)))
            (Some (Finite 1)) initial)
       = Some (Reply 200 True ''Carbon credit listed and undergoing verification''
                 (Some ''listing-1''))
   \<and> map_option (\<lambda>r. balanceOf (snd r) ''seller1'')
         (post_list_credit testConfig yesEnv (Some ''seller1'') (Some (Finite (- 5)))
            (Some (Finite 1)) initial)
       = Some (Some (Finite (- 5)))"
  using negative_amount_accepted
  by (simp add: truthy_string_def truthy_number_def getUser_def users_initial)

text \<open>
  Claim C7. The run that consists of that one request ends in a state where the balance of
  \<^verbatim>\<open>seller1\<close> is -5, which is not non-negative.
\<close>

theorem negative_issuance_overdraws:
  "run testConfig [ListCredit yesEnv (Some ''seller1'') (Some (Finite (- 5)))
                     (Some (Finite 1))] initial
     = Some overdrawnState
   \<and> users (db overdrawnState) ''seller1''
     = Some \<lparr> username = ''seller1'', password = ''password123'', role = ''seller'',
              balance = Finite (- 5) \<rparr>
   \<and> \<not> nonNegative (balance \<lparr> username = ''seller1'', password = ''password123'',
                                role = ''seller'', balance = Finite (- 5) \<rparr>)"
  by (simp add: list_credit_negative) (simp add: overdrawnState_def)

theorem negative_issuance_overdraws_witness:
  "list_all (\<lambda>r. handle testConfig r initial \<noteq> None)
     [ListCredit yesEnv (Some ''seller1'') (Some (Finite (- 5))) (Some (Finite 1))]
   \<and> map_option (\<lambda>s. balanceOf s ''seller1'')
         (run testConfig [ListCredit yesEnv (Some ''seller1'') (Some (Finite (- 5)))
                            (Some (Finite 1))] initial)
       = Some (Some (Finite (- 5)))
   \<and> \<not> nonNegative (Finite (- 5))"
  using negative_issuance_overdraws
  by (simp add: balanceOf_def split: option.splits)


subsection \<open>Balances under rounding\<close>

text \<open>
  A run with no negative amount can also end below zero. \<^verbatim>\<open>seller1\<close> lists 1 credit and then
  1.3 credits (the double nearest to 1.3 is \<open>5854679515581645 / 2 ^ 52\<close>); the balance is then
  the double nearest to the sum, which is smaller than the sum. \<^verbatim>\<open>buyer1\<close> buys both
  listings: the two debits are exact, and the seller's balance ends at \<open>- (1 / 2 ^ 52)\<close>.
\<close>

lemma exponent_fractions:
  "exponent (13 / 10) = 0"
  "exponent (10358279142952141 / 4503599627370496) = 1"
  "exponent (1463669878895411 / 1125899906842624) = 0"
  "exponent (1 / 4503599627370496) = - 52"
  by (simp_all add: exponent_def bitLength.simps pow2_def Let_def)

lemma roundHalfEven_fractions:
  "roundHalfEven (29273397577908224 / 5) = 5854679515581645"
  "roundHalfEven (10358279142952141 / 2) = 5179139571476070"
  by (simp_all add: roundHalfEven_def Let_def)

lemma toDouble_fractions:
  "toDouble (13 / 10) = Finite (5854679515581645 / 4503599627370496)"
  "toDouble (10358279142952141 / 4503599627370496) = Finite (2589569785738035 / 1125899906842624)"
  "toDouble (1463669878895411 / 1125899906842624) = Finite (1463669878895411 / 1125899906842624)"
  "toDouble (- (1 / 4503599627370496)) = Finite (- (1 / 4503599627370496))"
  by (simp_all add: toDouble_def exponent_fractions pow2_def roundHalfEven_fractions
        roundHalfEven_int[of 5854679515581644, simplified]
        roundHalfEven_int[of 4503599627370496, simplified] Let_def)

lemma rounding_overdraws:
  "map_option (\<lambda>s. (balanceOf s ''seller1'', balanceOf s ''buyer1''))
     (run testConfig
        [ListCredit yesEnv (Some ''seller1'') (Some (Finite 1)) (Some (Finite 1)),
         ListCredit yesEnv2 (Some ''seller1'')
           (Some (Finite (5854679515581645 / 4503599627370496))) (Some (Finite 1)),
         BuyCredit yesEnv (Some ''buyer1'') (Some ''listing-1''),
         BuyCredit yesEnv2 (Some ''buyer1'') (Some ''listing-3'')] initial)
   = Some (Some (Finite (- (1 / 4503599627370496))),
           Some (Finite (2589569785738035 / 1125899906842624)))"
  "\<not> nonNegative (Finite (- (1 / 4503599627370496)))"
proof -
  have u: "uuidv4 yesEnv = ''listing-1''" "uuidv4 yesEnv2 = ''listing-3''"
    by (simp_all add: yesEnv_def yesEnv2_def)
  have l0: "listings (db initial) = []"
    by (simp add: initial_def initializeTestData_def)
  show "map_option (\<lambda>s. (balanceOf s ''seller1'', balanceOf s ''buyer1''))
     (run testConfig
        [ListCredit yesEnv (Some ''seller1'') (Some (Finite 1)) (Some (Finite 1)),
         ListCredit yesEnv2 (Some ''seller1'')
           (Some (Finite (5854679515581645 / 4503599627370496))) (Some (Finite 1)),
         BuyCredit yesEnv (Some ''buyer1'') (Some ''listing-1''),
         BuyCredit yesEnv2 (Some ''buyer1'') (Some ''listing-3'')] initial)
   = Some (Some (Finite (- (1 / 4503599627370496))),
           Some (Finite (2589569785738035 / 1125899906842624)))"
    by (simp add: post_list_credit_def post_buy_credit_def truthy_string_def
          truthy_number_def getUser_def users_initial createListing_def Let_def gate_yesEnv
          gate_yesEnv2 addBlock_test purchaseCredit_def updateUserBalance_def
          verifyListing_def u l0 balanceOf_def toDouble_small toDouble_fractions)
  show "\<not> nonNegative (Finite (- (1 / 4503599627370496)))"
    by simp
qed

subsection \<open>Every state the server reaches\<close>

text \<open>
  The listings of every reachable state are keyed by their identifiers, which is what the
  statements about the marketplace view ask of the state. When the ledger's difficulty is
  attainable, every request is answered, so every sequence of requests is a run.
\<close>

lemma set_update_subset: "set (AList.update k v ls) \<subseteq> insert (k, v) (set ls)"
  by (induction ls) auto

lemma set_delete_subset: "set (AList.delete k ls) \<subseteq> set ls"
  by (auto simp: AList.delete_eq)

lemma purchaseCredit_refused:
  "fst (purchaseCredit buyer listingId d) = PurchaseFailed msg \<Longrightarrow>
     snd (purchaseCredit buyer listingId d) = d"
  by (auto simp: purchaseCredit_def Let_def split: option.splits if_splits)

lemma purchaseCredit_accepted:
  "fst (purchaseCredit buyer listingId d) = Purchased sel amt pr \<Longrightarrow>
     \<exists>l bu. map_of (listings d) listingId = Some l \<and> status l = Verified
            \<and> users d buyer = Some bu"
  by (auto simp: purchaseCredit_def Let_def split: option.splits if_splits)

lemma keyed_update:
  assumes "keyed ls" "listing_id v = k"
  shows "keyed (AList.update k v ls)"
proof -
  have "listing_id l = k'" if "(k', l) \<in> set (AList.update k v ls)" for k' l
  proof -
    from that set_update_subset have "(k', l) = (k, v) \<or> (k', l) \<in> set ls"
      by fastforce
    then show ?thesis
      using assms keyed_id by auto
  qed
  moreover have "distinct (map fst (AList.update k v ls))"
    using assms(1) by (simp add: keyed_def distinct_update)
  ultimately show ?thesis
    unfolding keyed_def by blast
qed

lemma keyed_delete:
  assumes "keyed ls"
  shows "keyed (AList.delete k ls)"
proof -
  have "listing_id l = k'" if "(k', l) \<in> set (AList.delete k ls)" for k' l
    using that set_delete_subset[of k ls] assms keyed_id by blast
  moreover have "distinct (map fst (AList.delete k ls))"
    using assms by (simp add: keyed_def distinct_delete)
  ultimately show ?thesis
    unfolding keyed_def by blast
qed

lemma registerUser_listings: "listings (snd (registerUser name pw r d)) = listings d"
  by (simp add: registerUser_def)

lemma handle_keyed:
  assumes "keyed (listings (db s))" "handle cfg r s = Some (resp, s')"
  shows "keyed (listings (db s'))"
proof (cases r)
  case (Register name pw role')
  with assms registerUser_listings[of "the name" "the pw" "the role'" "db s"] show ?thesis
    by (auto simp: post_register_def split: if_splits prod.splits)
next
  case (ListCredit e name amt pr)
  show ?thesis
  proof (cases "truthy_string name \<and> truthy_number amt \<and> truthy_number pr
      \<and> (\<exists>u. users (db s) (the name) = Some u \<and> role u = ''seller'')")
    case False
    then have "\<exists>msg. post_list_credit cfg e name amt pr s = Some (Reply 400 False msg None, s)"
      by (intro post_list_credit_refused) blast
    with assms ListCredit show ?thesis by auto
  next
    case True
    then obtain n a p u where n: "name = Some n" "n \<noteq> []"
      and a: "amt = Some a" "truthy_number (Some a)"
      and p: "pr = Some p" "truthy_number (Some p)"
      and u: "users (db s) n = Some u" "role u = ''seller''"
      by (cases name; cases amt; cases pr) (auto simp: truthy_string_def truthy_number_def)
    have kv: "keyed (AList.update (uuidv4 e) ((pendingListing e n a p)\<lparr> status := st \<rparr>)
        (listings (db s)))" for st
      by (rule keyed_update[OF assms(1)]) simp
    from assms(2) show ?thesis
      unfolding ListCredit handle.simps n(1) a(1) p(1)
        post_list_credit_seller[OF n(2) a(2) p(2) u]
      using kv by (auto split: consensus.splits option.splits)
  qed
next
  case (BuyCredit e buyer listingId)
  show ?thesis
  proof (cases "truthy_string buyer \<and> truthy_string listingId")
    case False
    with assms BuyCredit show ?thesis
      by (auto simp: post_buy_credit_def)
  next
    case True
    show ?thesis
    proof (cases "fst (purchaseCredit (the buyer) (the listingId) (db s))")
      case (PurchaseFailed msg)
      from purchaseCredit_refused[OF this] PurchaseFailed assms BuyCredit True
      show ?thesis
        by (cases "purchaseCredit (the buyer) (the listingId) (db s)")
          (auto simp: post_buy_credit_def)
    next
      case (Purchased sel amt pr)
      from purchaseCredit_accepted[OF this] obtain l bu
        where l: "map_of (listings (db s)) (the listingId) = Some l" "status l = Verified"
          and bu: "users (db s) (the buyer) = Some bu" by blast
      have "keyed (listings (snd (purchaseCredit (the buyer) (the listingId) (db s))))"
        unfolding purchaseCredit_verified(2)[OF l bu] by (rule keyed_delete[OF assms(1)])
      with Purchased assms(2) BuyCredit True
      show ?thesis
        by (cases "purchaseCredit (the buyer) (the listingId) (db s)")
          (auto simp: post_buy_credit_def split: option.splits if_splits)
    qed
  qed
qed

lemma run_keyed:
  "run cfg rs s = Some s' \<Longrightarrow> keyed (listings (db s)) \<Longrightarrow> keyed (listings (db s'))"
proof (induction rs arbitrary: s)
  case Nil
  then show ?case by simp
next
  case (Cons r rs)
  from Cons.prems(1) obtain resp s1 where h: "handle cfg r s = Some (resp, s1)"
    and rest: "run cfg rs s1 = Some s'"
    by (auto split: option.splits)
  from Cons.IH[OF rest handle_keyed[OF Cons.prems(2) h]] show ?case .
qed

lemma reachable_keyed: "run cfg rs initial = Some s \<Longrightarrow> keyed (listings (db s))"
  using run_keyed[OF _ keyed_examples(1)] .

lemma handle_returns:
  assumes "attainable cfg"
  shows "\<exists>resp s'. handle cfg r s = Some (resp, s')"
proof (cases r)
  case (Register name pw role')
  then show ?thesis
    by (cases "post_register name pw role' s") simp
next
  case (ListCredit e name amt pr)
  show ?thesis
  proof (cases "truthy_string name \<and> truthy_number amt \<and> truthy_number pr
      \<and> (\<exists>u. users (db s) (the name) = Some u \<and> role u = ''seller'')")
    case False
    then have "\<exists>msg. post_list_credit cfg e name amt pr s = Some (Reply 400 False msg None, s)"
      by (intro post_list_credit_refused) blast
    with ListCredit show ?thesis by auto
  next
    case True
    then obtain n a p u where n: "name = Some n" "n \<noteq> []"
      and a: "amt = Some a" "truthy_number (Some a)"
      and p: "pr = Some p" "truthy_number (Some p)"
      and u: "users (db s) n = Some u" "role u = ''seller''"
      by (cases name; cases amt; cases pr) (auto simp: truthy_string_def truthy_number_def)
    from addBlock_returns[OF assms] obtain b where
      "addBlock cfg (blockchain s) (dates e 2)
         (carbon_credit_listing (uuidv4 e) n a p (dates e 1) Verified)
       = Some (blockchain s @ [b], b)"
      by blast
    then show ?thesis
      unfolding ListCredit handle.simps n(1) a(1) p(1)
        post_list_credit_seller[OF n(2) a(2) p(2) u]
      by (simp split: consensus.splits)
  qed
next
  case (BuyCredit e buyer listingId)
  show ?thesis
  proof (cases "purchaseCredit (the buyer) (the listingId) (db s)")
    case (Pair res d')
    show ?thesis
    proof (cases res)
      case (Purchased sel amt pr)
      from addBlock_returns[OF assms] obtain b where
        "addBlock cfg (blockchain s) (dates e 1)
           (carbon_credit_purchase (the listingId) (the buyer) sel amt pr (dates e 0))
         = Some (blockchain s @ [b], b)"
        by blast
      with Pair Purchased show ?thesis
        unfolding BuyCredit handle.simps post_buy_credit_def by simp
    next
      case (PurchaseFailed msg)
      with Pair show ?thesis
        unfolding BuyCredit handle.simps post_buy_credit_def by simp
    qed
  qed
qed

lemma run_returns: "attainable cfg \<Longrightarrow> \<exists>s'. run cfg rs s = Some s'"
proof (induction rs arbitrary: s)
  case Nil
  then show ?case by simp
next
  case (Cons r rs)
  from handle_returns[OF Cons.prems, of r s] obtain resp s1
    where "handle cfg r s = Some (resp, s1)" by blast
  with Cons.IH[OF Cons.prems, of s1] show ?case by simp
qed

end
